theory Spec2Isabelle
  imports Complex_Main "HOL-Library.Code_Target_Nat"
begin


section \<open>JavaScript strings\<close>

text \<open>
  A JavaScript string is a sequence of UTF-16 code units; \<open>length\<close>, \<open>includes\<close>,
  \<open>split\<close> and the regular expressions of the sources (none carries the \<open>u\<close> flag) all
  work on code units. A code unit is modelled by its number, so that the bullet
  \<open>U+2022\<close> of the response formatter is a code unit like any other. \<open>js\<close> turns an
  ASCII literal of the source into its code units.
\<close>

type_synonym jstring = "nat list"

definition js :: "string \<Rightarrow> jstring" where
  "js s = map of_char s"

text \<open>Number to string conversion of a non-negative integer (template literals, \<open>+\<close>).\<close>

function decimal :: "nat \<Rightarrow> jstring" where
  "decimal n = (if n < 10 then [48 + n] else decimal (n div 10) @ [48 + n mod 10])"
  by pat_completeness auto
termination
  by (relation "measure (\<lambda>n. n)") auto

declare decimal.simps [simp del]

section \<open>Persistent storage\<close>

text \<open>
  \<open>chrome.storage.local\<close> is one key-value store shared by the usage tracker and the
  memory service. The keys the modelled code touches are \<open>userId\<close>, the usage counter
  \<open>ai_sidebar_usage_<userId>\<close> and the conversation log \<open>ai_sidebar_memory_<userId>\<close>.
\<close>

text \<open>
  An entry of the conversation log, \<open>{timestamp, sessionId, message, response, model}\<close>;
  the last three fields carry a prefix, their names being used for variables below.
\<close>

record conversation =
  timestamp :: nat
  sessionId :: jstring
  conv_message :: jstring
  conv_response :: jstring
  conv_model :: jstring

record storage =
  userId :: "jstring option"
  usage :: "jstring \<rightharpoonup> nat"
  memory :: "jstring \<rightharpoonup> conversation list"

text \<open>
  \<open>getUserId\<close> (the same code in both services): the stored id when it is truthy,
  otherwise a fresh id \<open>'user_' + Date.now()\<close>, which is also written back.
\<close>

definition getUserId :: "nat \<Rightarrow> storage \<Rightarrow> jstring \<times> storage" where
  "getUserId now st =
     (case userId st of
        Some u \<Rightarrow>
          if u \<noteq> [] then (u, st)
          else (let newUserId = js ''user_'' @ decimal now
                in (newUserId, st\<lparr>userId := Some newUserId\<rparr>))
      | None \<Rightarrow>
          (let newUserId = js ''user_'' @ decimal now
           in (newUserId, st\<lparr>userId := Some newUserId\<rparr>)))"

section \<open>String operations of the runtime\<close>

text \<open>\<open>String.prototype.startsWith\<close> and \<open>String.prototype.includes\<close> (\<open>includes_js\<close>).\<close>

fun startsWith :: "jstring \<Rightarrow> jstring \<Rightarrow> bool" where
  "startsWith s [] = True"
| "startsWith [] (k # ks) = False"
| "startsWith (c # s) (k # ks) = (c = k \<and> startsWith s ks)"

fun includes_js :: "jstring \<Rightarrow> jstring \<Rightarrow> bool" where
  "includes_js [] k = (k = [])"
| "includes_js (c # s) k = (startsWith (c # s) k \<or> includes_js s k)"

text \<open>
  White space and line terminators of ECMAScript: the code units that \<open>trim\<close> removes and
  that \<open>\s\<close> matches. Line terminators are the four that \<open>.\<close> does not match.
\<close>

definition isLineTerminator :: "nat \<Rightarrow> bool" where
  "isLineTerminator c \<longleftrightarrow> c = 10 \<or> c = 13 \<or> c = 8232 \<or> c = 8233"

definition isSpace :: "nat \<Rightarrow> bool" where
  "isSpace c \<longleftrightarrow> c = 9 \<or> c = 10 \<or> c = 11 \<or> c = 12 \<or> c = 13 \<or> c = 32 \<or> c = 160 \<or> c = 5760
     \<or> (8192 \<le> c \<and> c \<le> 8202) \<or> c = 8232 \<or> c = 8233 \<or> c = 8239 \<or> c = 8287
     \<or> c = 12288 \<or> c = 65279"

definition isDigit :: "nat \<Rightarrow> bool" where
  "isDigit c \<longleftrightarrow> 48 \<le> c \<and> c \<le> 57"

definition isWordChar :: "nat \<Rightarrow> bool" where
  "isWordChar c \<longleftrightarrow> (65 \<le> c \<and> c \<le> 90) \<or> (97 \<le> c \<and> c \<le> 122) \<or> isDigit c \<or> c = 95"

definition trimStart :: "jstring \<Rightarrow> jstring" where
  "trimStart s = dropWhile isSpace s"

definition trim :: "jstring \<Rightarrow> jstring" where
  "trim s = rev (dropWhile isSpace (rev (dropWhile isSpace s)))"

text \<open>\<open>s.split(sep)\<close> for a separator of one code unit: the pieces between its occurrences.\<close>

fun split_char :: "nat \<Rightarrow> jstring \<Rightarrow> jstring list" where
  "split_char sep [] = [[]]"
| "split_char sep (c # s) =
     (if c = sep then [] # split_char sep s
      else (case split_char sep s of p # ps \<Rightarrow> (c # p) # ps | [] \<Rightarrow> [[c]]))"

text \<open>\<open>Array.prototype.join\<close>.\<close>

fun join :: "jstring \<Rightarrow> jstring list \<Rightarrow> jstring" where
  "join sep [] = []"
| "join sep [x] = x"
| "join sep (x # y # ys) = x @ sep @ join sep (y # ys)"

text \<open>
  \<open>String.prototype.toLowerCase\<close> follows the Unicode case tables, which are no part of
  the repository. The functions that call it take it as the parameter \<open>lc\<close>, so that what
  is proved of them for every string holds for every lower-casing. On a string of ASCII
  code units \<open>toLowerCase\<close> is \<open>toLowerCaseASCII\<close>, which the concrete evaluations use.
\<close>

definition lowerUnit :: "nat \<Rightarrow> nat" where
  "lowerUnit c = (if 65 \<le> c \<and> c \<le> 90 then c + 32 else c)"

definition upperUnit :: "nat \<Rightarrow> nat" where
  "upperUnit c = (if 97 \<le> c \<and> c \<le> 122 then c - 32 else c)"

definition toLowerCaseASCII :: "jstring \<Rightarrow> jstring" where
  "toLowerCaseASCII s = map lowerUnit s"

section \<open>Regular expressions\<close>

text \<open>
  The regular expressions of the sources, as syntax trees, and the backtracking matcher of
  ECMAScript on them. A match state is the position in the subject, the code unit before
  it (for \<open>\b\<close> and \<open>^\<close>), the text still to read and the captures made so far. \<open>run\<close>
  returns the states in which a pattern can end, in the order in which the backtracking
  matcher tries them, so that the head of the list is the match of the engine.

  \<^item> Under the flag \<open>i\<close> two code units match when their canonical (upper case) forms agree.
    Every literal and class of the sources is ASCII or white space, and the engine (no
    \<open>u\<close> flag) never folds a code unit from outside ASCII into ASCII, so folding ASCII
    letters is all that matters.
  \<^item> A starred pattern refuses an iteration that consumes nothing, as the engine does.
    Every accepted iteration moves the position forward, so the fuel
    \<open>Suc (length s)\<close> handed over by \<open>exec\<close> is never used up (lemma \<open>run_fuel\<close>).
\<close>

datatype cls = Ch nat | Range nat nat | Space | Digit | WordCh

datatype rx =
    Lit nat
  | AnyChar
  | OneOf "cls list"
  | NoneOf "cls list"
  | Eps
  | Seq rx rx
  | Alt rx rx
  | Star rx
  | LazyStar rx
  | Group nat rx
  | Bol
  | WordB
  | Ahead rx

record flags =
  ignoreCase :: bool
  multiline :: bool

type_synonym captures = "(nat \<times> nat \<times> nat) list"

datatype mstate = MState (pos: nat) (prev: "nat option") (rest: jstring) (caps: captures)

definition canon :: "flags \<Rightarrow> nat \<Rightarrow> nat" where
  "canon fl c = (if ignoreCase fl then upperUnit c else c)"

fun cls_has :: "cls \<Rightarrow> nat \<Rightarrow> bool" where
  "cls_has (Ch k) c = (c = k)"
| "cls_has (Range lo hi) c = (lo \<le> c \<and> c \<le> hi)"
| "cls_has Space c = isSpace c"
| "cls_has Digit c = isDigit c"
| "cls_has WordCh c = isWordChar c"

text \<open>A class matches a code unit when it holds a member of the same canonical form.\<close>

definition cls_match :: "flags \<Rightarrow> cls list \<Rightarrow> nat \<Rightarrow> bool" where
  "cls_match fl items c \<longleftrightarrow>
     list_ex (\<lambda>a. cls_has a c \<or> (ignoreCase fl \<and> (cls_has a (upperUnit c) \<or> cls_has a (lowerUnit c)))) items"

text \<open>What one code unit has to satisfy to be consumed by an atom of a pattern.\<close>

datatype atom = ALit nat | AAny | AOneOf "cls list" | ANoneOf "cls list"

fun accepts :: "flags \<Rightarrow> atom \<Rightarrow> nat \<Rightarrow> bool" where
  "accepts fl (ALit c) x = (canon fl x = canon fl c)"
| "accepts fl AAny x = (\<not> isLineTerminator x)"
| "accepts fl (AOneOf items) x = cls_match fl items x"
| "accepts fl (ANoneOf items) x = (\<not> cls_match fl items x)"

fun consume :: "flags \<Rightarrow> atom \<Rightarrow> mstate \<Rightarrow> mstate list" where
  "consume fl a (MState i pv [] cs) = []"
| "consume fl a (MState i pv (x # xs) cs) =
     (if accepts fl a x then [MState (Suc i) (Some x) xs cs] else [])"

text \<open>\<open>\b\<close>: exactly one of the code units before and after the position is a word character.\<close>

fun atWordBoundary :: "mstate \<Rightarrow> bool" where
  "atWordBoundary (MState i pv s cs) =
     ((case pv of None \<Rightarrow> False | Some p \<Rightarrow> isWordChar p)
      \<noteq> (case s of [] \<Rightarrow> False | x # xs \<Rightarrow> isWordChar x))"

text \<open>\<open>^\<close>: the start of the subject, or under the flag \<open>m\<close> the position after a line terminator.\<close>

fun atLineStart :: "flags \<Rightarrow> mstate \<Rightarrow> bool" where
  "atLineStart fl (MState i pv s cs) =
     (case pv of None \<Rightarrow> True | Some p \<Rightarrow> multiline fl \<and> isLineTerminator p)"

definition advanced :: "mstate \<Rightarrow> mstate \<Rightarrow> bool" where
  "advanced st st' \<longleftrightarrow> pos st < pos st'"

definition capture :: "nat \<Rightarrow> mstate \<Rightarrow> mstate \<Rightarrow> mstate" where
  "capture k st st' = MState (pos st') (prev st') (rest st') ((k, pos st, pos st') # caps st')"

fun run :: "flags \<Rightarrow> nat \<Rightarrow> rx \<Rightarrow> mstate \<Rightarrow> mstate list"
  and runs :: "flags \<Rightarrow> nat \<Rightarrow> rx \<Rightarrow> mstate list \<Rightarrow> mstate list" where
  "run fl n (Lit c) st = consume fl (ALit c) st"
| "run fl n AnyChar st = consume fl AAny st"
| "run fl n (OneOf items) st = consume fl (AOneOf items) st"
| "run fl n (NoneOf items) st = consume fl (ANoneOf items) st"
| "run fl n Eps st = [st]"
| "run fl n (Seq r1 r2) st = runs fl n r2 (run fl n r1 st)"
| "run fl n (Alt r1 r2) st = run fl n r1 st @ run fl n r2 st"
| "run fl 0 (Star r) st = [st]"
| "run fl (Suc n) (Star r) st =
     runs fl n (Star r) (filter (advanced st) (run fl (Suc n) r st)) @ [st]"
| "run fl 0 (LazyStar r) st = [st]"
| "run fl (Suc n) (LazyStar r) st =
     st # runs fl n (LazyStar r) (filter (advanced st) (run fl (Suc n) r st))"
| "run fl n (Group k r) st = map (capture k st) (run fl n r st)"
| "run fl n Bol st = (if atLineStart fl st then [st] else [])"
| "run fl n WordB st = (if atWordBoundary st then [st] else [])"
| "run fl n (Ahead r) st =
     (case run fl n r st of [] \<Rightarrow> [] | st' # _ \<Rightarrow> [MState (pos st) (prev st) (rest st) (caps st')])"
| "runs fl n r [] = []"
| "runs fl n r (st # sts) = run fl n r st @ runs fl n r sts"

text \<open>
  What the matcher does to a state: it consumes some code units of the remaining text,
  and the position moves on by their number.
\<close>

definition reaches :: "mstate \<Rightarrow> mstate \<Rightarrow> bool" where
  "reaches st st' \<longleftrightarrow> (\<exists>k \<le> length (rest st). rest st' = drop k (rest st) \<and> pos st' = pos st + k)"

text \<open>Pattern syntax built from the primitives: a literal string, \<open>r+\<close>, \<open>r?\<close>, sequences, alternatives.\<close>

fun seqs :: "rx list \<Rightarrow> rx" where
  "seqs [] = Eps"
| "seqs [r] = r"
| "seqs (r # rs) = Seq r (seqs rs)"

fun alts :: "rx list \<Rightarrow> rx" where
  "alts [] = Eps"
| "alts [r] = r"
| "alts (r # rs) = Alt r (alts rs)"

definition str :: "string \<Rightarrow> rx" where
  "str w = seqs (map (\<lambda>c. Lit (of_char c)) w)"

definition Plus :: "rx \<Rightarrow> rx" where
  "Plus r = Seq r (Star r)"

definition Opt :: "rx \<Rightarrow> rx" where
  "Opt r = Alt r Eps"

text \<open>
  \<open>RegExp.prototype.exec\<close>: the first position, from the given one on, at which the
  pattern matches. The result is the start of the match and the state at its end.
\<close>

fun execFrom :: "flags \<Rightarrow> rx \<Rightarrow> nat \<Rightarrow> nat \<Rightarrow> nat option \<Rightarrow> jstring \<Rightarrow> (nat \<times> mstate) option" where
  "execFrom fl r n i pv [] =
     (case run fl n r (MState i pv [] []) of m # _ \<Rightarrow> Some (i, m) | [] \<Rightarrow> None)"
| "execFrom fl r n i pv (x # xs) =
     (case run fl n r (MState i pv (x # xs) []) of
        m # _ \<Rightarrow> Some (i, m)
      | [] \<Rightarrow> execFrom fl r n (Suc i) (Some x) xs)"

definition exec :: "flags \<Rightarrow> rx \<Rightarrow> jstring \<Rightarrow> (nat \<times> mstate) option" where
  "exec fl r s = execFrom fl r (Suc (length s)) 0 None s"

text \<open>\<open>RegExp.prototype.test\<close> of a pattern without the \<open>g\<close> flag.\<close>

definition test :: "flags \<Rightarrow> rx \<Rightarrow> jstring \<Rightarrow> bool" where
  "test fl r s \<longleftrightarrow> exec fl r s \<noteq> None"

definition flags_none :: flags where
  "flags_none = \<lparr>ignoreCase = False, multiline = False\<rparr>"

definition flags_i :: flags where
  "flags_i = \<lparr>ignoreCase = True, multiline = False\<rparr>"

definition flags_m :: flags where
  "flags_m = \<lparr>ignoreCase = False, multiline = True\<rparr>"

subsection \<open>Splitting and replacing with a pattern\<close>

text \<open>
  \<open>String.prototype.split\<close> with a pattern (none of the patterns used for splitting has a
  group). The engine walks the subject with two indices: \<open>p\<close>, where the current piece
  starts, and \<open>q\<close>, where a match is tried. A match at \<open>q\<close> that ends at \<open>p\<close>, that is
  an empty match with an empty piece, is passed over; any other match closes the piece and
  the next one starts at the end of the match. Here \<open>piece\<close> holds the code units from
  \<open>p\<close> to \<open>q\<close> in reverse, and \<open>skip\<close> counts the code units of a match still to pass.
  The empty subject gives no piece if the pattern matches it and one empty piece if not.
\<close>

fun splitLoop :: "flags \<Rightarrow> rx \<Rightarrow> nat \<Rightarrow> jstring \<Rightarrow> nat \<Rightarrow> nat \<Rightarrow> nat option \<Rightarrow> jstring \<Rightarrow> jstring list" where
  "splitLoop fl r n piece skip q pv [] = [rev piece]"
| "splitLoop fl r n piece skip q pv (x # xs) =
     (if 0 < skip then splitLoop fl r n [] (skip - 1) (Suc q) (Some x) xs
      else
        (case run fl n r (MState q pv (x # xs) []) of
           [] \<Rightarrow> splitLoop fl r n (x # piece) 0 (Suc q) (Some x) xs
         | m # _ \<Rightarrow>
             if pos m = q then
               (if piece = [] then splitLoop fl r n [x] 0 (Suc q) (Some x) xs
                else rev piece # splitLoop fl r n [x] 0 (Suc q) (Some x) xs)
             else rev piece # splitLoop fl r n [] (pos m - Suc q) (Suc q) (Some x) xs))"

definition split_rx :: "flags \<Rightarrow> rx \<Rightarrow> jstring \<Rightarrow> jstring list" where
  "split_rx fl r s =
     (if s = [] then (case run fl (Suc 0) r (MState 0 None [] []) of [] \<Rightarrow> [[]] | m # _ \<Rightarrow> [])
      else splitLoop fl r (Suc (length s)) [] 0 0 None s)"

text \<open>
  \<open>String.prototype.replace\<close> with a pattern under the flag \<open>g\<close>: the matches are found
  from left to right, each search starting where the last match ended, or one code unit
  further after an empty match; the text between the matches is kept. The replacement is
  computed from the text of group 1 (\<open>$1\<close>), \<open>None\<close> when the group took no part.
\<close>

definition group_text :: "nat \<Rightarrow> nat \<Rightarrow> jstring \<Rightarrow> mstate \<Rightarrow> jstring option" where
  "group_text k q s m =
     (case filter (\<lambda>c. fst c = k) (caps m) of
        [] \<Rightarrow> None
      | (g, a, b) # _ \<Rightarrow> Some (take (b - a) (drop (a - q) s)))"

fun replaceLoop ::
  "flags \<Rightarrow> rx \<Rightarrow> nat \<Rightarrow> (jstring option \<Rightarrow> jstring) \<Rightarrow> nat \<Rightarrow> nat \<Rightarrow> nat option \<Rightarrow> jstring \<Rightarrow> jstring" where
  "replaceLoop fl r n f skip q pv [] =
     (if 0 < skip then []
      else (case run fl n r (MState q pv [] []) of [] \<Rightarrow> [] | m # _ \<Rightarrow> f (group_text 1 q [] m)))"
| "replaceLoop fl r n f skip q pv (x # xs) =
     (if 0 < skip then replaceLoop fl r n f (skip - 1) (Suc q) (Some x) xs
      else
        (case run fl n r (MState q pv (x # xs) []) of
           [] \<Rightarrow> x # replaceLoop fl r n f 0 (Suc q) (Some x) xs
         | m # _ \<Rightarrow>
             f (group_text 1 q (x # xs) m)
             @ (if pos m = q then x # replaceLoop fl r n f 0 (Suc q) (Some x) xs
                else replaceLoop fl r n f (pos m - Suc q) (Suc q) (Some x) xs)))"

definition replaceAll :: "flags \<Rightarrow> rx \<Rightarrow> (jstring option \<Rightarrow> jstring) \<Rightarrow> jstring \<Rightarrow> jstring" where
  "replaceAll fl r f s = replaceLoop fl r (Suc (length s)) f 0 0 None s"

text \<open>\<open>String.prototype.match\<close> with a pattern without \<open>g\<close>: the texts of the groups of the first match.\<close>

definition match_groups :: "flags \<Rightarrow> rx \<Rightarrow> jstring \<Rightarrow> (nat \<Rightarrow> jstring option) option" where
  "match_groups fl r s =
     (case exec fl r s of
        None \<Rightarrow> None
      | Some (q, m) \<Rightarrow> Some (\<lambda>k. group_text k 0 s m))"

section \<open>Scoring-based routing (ModelDelegationService)\<close>

text \<open>
  A decision of the delegation service: \<open>{model, reasoning, scores}\<close>; the two contextual
  decisions carry no scores. A keyword score is the quotient of two small integers, kept
  here as a rational number. The sources compare its double with the doubles of \<open>0.3\<close>
  and \<open>0.5\<close>; rounding is monotone and a quotient \<open>m / n\<close> other than \<open>3/10\<close> is
  at least \<open>1 / (10 n)\<close> away from it (and likewise for \<open>1/2\<close>), far more than the
  spacing of the doubles there, so for every string that fits in memory the comparison of
  the doubles is the comparison of the rationals.
\<close>

record delegation_decision =
  d_model :: jstring
  d_reasoning :: jstring
  d_scores :: "(rat \<times> rat) option"

definition realTimeKeywords :: "jstring list" where
  "realTimeKeywords = map js
     [''now'', ''today'', ''current'', ''latest'', ''near'', ''live'', ''breaking'', ''this weekend'',
      ''weather'', ''traffic'', ''price'', ''available'', ''open'', ''schedule'', ''events'']"

definition analyticalKeywords :: "jstring list" where
  "analyticalKeywords = map js
     [''explain'', ''analyze'', ''compare'', ''historical'', ''why'', ''theory'', ''break down'',
      ''how does'', ''what causes'', ''implications'', ''evaluate'', ''assess'']"

definition HYBRID_THRESHOLD :: rat where
  "HYBRID_THRESHOLD = 3 / 10"

definition SINGLE_MODEL_THRESHOLD :: rat where
  "SINGLE_MODEL_THRESHOLD = 1 / 2"

definition calculateKeywordScore :: "jstring \<Rightarrow> jstring list \<Rightarrow> rat" where
  "calculateKeywordScore query keywords =
     (let matches = filter (\<lambda>keyword. includes_js query keyword) keywords
      in of_nat (length matches) / of_nat (max (length (split_char 32 query)) 1))"

text \<open>\<open>/\b(?:in|at|near|around)\s+([A-Za-z\s]+(?:,\s*[A-Za-z\s]+)?)\b/i\<close>\<close>

definition locationPattern :: rx where
  "locationPattern =
     seqs [WordB,
           alts [str ''in'', str ''at'', str ''near'', str ''around''],
           Plus (OneOf [Space]),
           Group 1 (Seq (Plus (OneOf [Range 65 90, Range 97 122, Space]))
                        (Opt (seqs [Lit 44, Star (OneOf [Space]),
                                    Plus (OneOf [Range 65 90, Range 97 122, Space])]))),
           WordB]"

text \<open>\<open>/\b(?:when|time|schedule|hours|open|closes?|available)\b/i\<close>\<close>

definition timeSensitivePattern :: rx where
  "timeSensitivePattern =
     seqs [WordB,
           alts [str ''when'', str ''time'', str ''schedule'', str ''hours'', str ''open'',
                 Seq (str ''close'') (Opt (Lit 115)), str ''available''],
           WordB]"

definition analyzeQueryContext :: "jstring \<Rightarrow> delegation_decision option" where
  "analyzeQueryContext query =
     (if test flags_i locationPattern query then
        Some \<lparr>d_model = js ''perplexity'',
              d_reasoning = js ''Location-based query requiring current data'', d_scores = None\<rparr>
      else if test flags_i timeSensitivePattern query then
        Some \<lparr>d_model = js ''perplexity'',
              d_reasoning = js ''Time-sensitive query requiring current data'', d_scores = None\<rparr>
      else None)"

text \<open>\<open>determineModelForQuery(query)\<close> of the delegation service; \<open>lc\<close> is \<open>toLowerCase\<close>.\<close>

definition determineModelForQuery :: "(jstring \<Rightarrow> jstring) \<Rightarrow> jstring \<Rightarrow> delegation_decision" where
  "determineModelForQuery lc query =
     (let lowercaseQuery = lc query;
          realTimeScore = calculateKeywordScore lowercaseQuery realTimeKeywords;
          analyticalScore = calculateKeywordScore lowercaseQuery analyticalKeywords
      in if realTimeScore > HYBRID_THRESHOLD \<and> analyticalScore > HYBRID_THRESHOLD then
           \<lparr>d_model = js ''hybrid'',
            d_reasoning = js ''Query requires both real-time data and analysis'',
            d_scores = Some (realTimeScore, analyticalScore)\<rparr>
         else if realTimeScore > SINGLE_MODEL_THRESHOLD then
           \<lparr>d_model = js ''perplexity'',
            d_reasoning = js ''Query requires real-time data'',
            d_scores = Some (realTimeScore, analyticalScore)\<rparr>
         else if analyticalScore > SINGLE_MODEL_THRESHOLD then
           \<lparr>d_model = js ''claude'',
            d_reasoning = js ''Query requires analytical processing'',
            d_scores = Some (realTimeScore, analyticalScore)\<rparr>
         else
           (case analyzeQueryContext query of
              Some contextualDecision \<Rightarrow> contextualDecision
            | None \<Rightarrow>
                \<lparr>d_model = js ''hybrid'',
                 d_reasoning = js ''Complex query requiring comprehensive response'',
                 d_scores = Some (realTimeScore, analyticalScore)\<rparr>))"

text \<open>The query of the hybrid-threshold example, and a plain greeting.\<close>

definition weather_query :: jstring where
  "weather_query =
     js ''Analyze the current weather trends and explain the underlying atmospheric theory near Boston''"

definition hello_query :: jstring where
  "hello_query = js ''hello''"

section \<open>Requests, retries and backoff\<close>

text \<open>
  The response object that travels between the background worker and the page:
  \<open>{success, error, data: {content: [{text}]}}\<close>. A field that the source leaves out is
  \<open>None\<close>.
\<close>

record response =
  success :: bool
  error :: "jstring option"
  content_text :: "jstring option"

text \<open>
  What a function does besides returning: the requests it posts (with the attempt
  number it writes into the message), the HTTP calls it makes (with the loop index)
  and the timers it waits for (in milliseconds), in order.
\<close>

datatype event = Request nat | Fetch nat | Sleep nat

text \<open>How an asynchronous function ends: with a value, or with an error of a given message.\<close>

datatype 'a completion = Returned 'a | Thrown jstring

subsection \<open>The page side: \<open>AIService.sendMessageWithRetry\<close>\<close>

text \<open>
  \<open>executeRequest\<close> posts the message on a port and waits: the worker replies, or the
  timeout fires first. It resolves with a reply whose \<open>success\<close> is set and rejects
  otherwise, with \<open>response.error || 'Request failed'\<close> or with \<open>Request timeout\<close>.
\<close>

datatype port_event = Replies response | Silent

definition executeRequest :: "port_event \<Rightarrow> jstring + response" where
  "executeRequest ev =
     (case ev of
        Silent \<Rightarrow> Inl (js ''Request timeout'')
      | Replies r \<Rightarrow>
          if success r then Inr r
          else (case error r of
                  None \<Rightarrow> Inl (js ''Request failed'')
                | Some e \<Rightarrow> if e = [] then Inl (js ''Request failed'') else Inl e))"

definition exhausted_apology :: "jstring \<Rightarrow> response" where
  "exhausted_apology message =
     \<lparr>success = True, error = None,
      content_text = Some (js ''Sorry, I encountered an error while trying to process your request: ''
                           @ message @ js ''. Please check your API keys and try again.'')\<rparr>"

text \<open>
  The body of the \<open>try\<close> of one iteration: the prompt is validated, then the request
  numbered \<open>currentAttempt + 1\<close> is executed. \<open>port\<close> tells what happens to each request.
\<close>

definition attemptRequest :: "(nat \<Rightarrow> port_event) \<Rightarrow> jstring \<Rightarrow> nat \<Rightarrow> event list \<times> (jstring + response)" where
  "attemptRequest port prompt currentAttempt =
     (if prompt = [] then ([], Inl (js ''Invalid message: prompt is required''))
      else ([Request (currentAttempt + 1)], executeRequest (port (currentAttempt + 1))))"

text \<open>
  The \<open>while (currentAttempt < maxRetries)\<close> loop. The counter is incremented in the
  \<open>catch\<close> before the delay is computed from it. A loop that is left without a
  \<open>return\<close> yields \<open>undefined\<close>, here \<open>None\<close>.
\<close>

function sendMessageWithRetry_loop ::
  "(nat \<Rightarrow> port_event) \<Rightarrow> jstring \<Rightarrow> nat \<Rightarrow> nat \<Rightarrow> event list \<times> response option" where
  "sendMessageWithRetry_loop port prompt maxRetries currentAttempt =
     (if currentAttempt < maxRetries then
        (case attemptRequest port prompt currentAttempt of
           (evs, Inr response) \<Rightarrow> (evs, Some response)
         | (evs, Inl message) \<Rightarrow>
             if currentAttempt + 1 = maxRetries then (evs, Some (exhausted_apology message))
             else
               (let (evs', result) = sendMessageWithRetry_loop port prompt maxRetries (currentAttempt + 1)
                in (evs @ [Sleep (min (1000 * 2 ^ (currentAttempt + 1)) 8000)] @ evs', result)))
      else ([], None))"
  by pat_completeness auto
termination
  by (relation "measure (\<lambda>(port, prompt, maxRetries, currentAttempt). maxRetries - currentAttempt)") auto

declare sendMessageWithRetry_loop.simps [simp del]

definition sendMessageWithRetry :: "(nat \<Rightarrow> port_event) \<Rightarrow> jstring \<Rightarrow> nat \<Rightarrow> event list \<times> response option" where
  "sendMessageWithRetry port prompt maxRetries = sendMessageWithRetry_loop port prompt maxRetries 0"

text \<open>The timers of a trace, and the number of requests or HTTP calls in it.\<close>

fun delays :: "event list \<Rightarrow> nat list" where
  "delays [] = []"
| "delays (Sleep ms # evs) = ms # delays evs"
| "delays (e # evs) = delays evs"

fun attempts :: "event list \<Rightarrow> nat" where
  "attempts [] = 0"
| "attempts (Sleep ms # evs) = attempts evs"
| "attempts (e # evs) = Suc (attempts evs)"

subsection \<open>The worker side: the provider handlers\<close>

text \<open>
  What one HTTP exchange with a provider comes to: \<open>fetch\<close>, \<open>response.json()\<close> or the
  read of the answer path throws an error of some message, or there is a response with a
  status, a raw body, and the text found at the answer path of the parsed body
  (\<open>None\<close> when it is \<open>undefined\<close>). \<open>response.ok\<close> is a status from 200 to 299.
  \<open>ensureApiKeys\<close> is taken to return.
\<close>

datatype fetch_outcome = Fails jstring | Http nat jstring "jstring option"

definition ok :: "nat \<Rightarrow> bool" where
  "ok status \<longleftrightarrow> 200 \<le> status \<and> status \<le> 299"

definition answered :: "jstring \<Rightarrow> response" where
  "answered responseText = \<lparr>success = True, error = None, content_text = Some responseText\<rparr>"

text \<open>\<open>handlePerplexityRequest(message, retryCount = 2)\<close> of the retrying worker.\<close>

definition perplexity_fallback :: response where
  "perplexity_fallback =
     \<lparr>success = True, error = None,
      content_text = Some (js ''I apologize, but I couldn't process your request. Please try again later.'')\<rparr>"

definition perplexityAttempt :: "(nat \<Rightarrow> fetch_outcome) \<Rightarrow> jstring \<Rightarrow> nat \<Rightarrow> event list \<times> (jstring + response)" where
  "perplexityAttempt fetch prompt i =
     (if prompt = [] then ([], Inl (js ''Invalid request: Missing prompt''))
      else
        ([Fetch i],
         (case fetch i of
            Fails message \<Rightarrow> Inl message
          | Http status body answer \<Rightarrow>
              if \<not> ok status then Inl (js ''API Error: '' @ decimal status)
              else (case answer of
                      None \<Rightarrow> Inl (js ''Invalid response format from API'')
                    | Some responseText \<Rightarrow>
                        if responseText = [] then Inl (js ''Invalid response format from API'')
                        else Inr (answered responseText)))))"

function handlePerplexityRequest_loop ::
  "(nat \<Rightarrow> fetch_outcome) \<Rightarrow> jstring \<Rightarrow> nat \<Rightarrow> nat \<Rightarrow> event list \<times> response option" where
  "handlePerplexityRequest_loop fetch prompt retryCount i =
     (if i < retryCount then
        (case perplexityAttempt fetch prompt i of
           (evs, Inr response) \<Rightarrow> (evs, Some response)
         | (evs, Inl message) \<Rightarrow>
             if i = retryCount - 1 then (evs, Some perplexity_fallback)
             else
               (let (evs', result) = handlePerplexityRequest_loop fetch prompt retryCount (i + 1)
                in (evs @ [Sleep (min (1000 * 2 ^ i) 8000)] @ evs', result)))
      else ([], None))"
  by pat_completeness auto
termination
  by (relation "measure (\<lambda>(fetch, prompt, retryCount, i). retryCount - i)") auto

declare handlePerplexityRequest_loop.simps [simp del]

definition handlePerplexityRequest :: "(nat \<Rightarrow> fetch_outcome) \<Rightarrow> jstring \<Rightarrow> nat \<Rightarrow> event list \<times> response option" where
  "handlePerplexityRequest fetch prompt retryCount = handlePerplexityRequest_loop fetch prompt retryCount 0"

text \<open>
  \<open>handleClaudeRequest(message, retryCount = 2)\<close> of the retrying worker. Every failed
  attempt but the last is followed by the backoff; the last one throws, and so does a loop
  that never ran.
\<close>

definition claudeAttempt :: "(nat \<Rightarrow> fetch_outcome) \<Rightarrow> nat \<Rightarrow> jstring + response" where
  "claudeAttempt fetch i =
     (case fetch i of
        Fails message \<Rightarrow> Inl message
      | Http status errorText answer \<Rightarrow>
          if \<not> ok status then
            Inl (js ''Claude API Error ('' @ decimal status @ js ''): '' @ errorText)
          else Inr \<lparr>success = True, error = None, content_text = answer\<rparr>)"

function handleClaudeRequest_loop ::
  "(nat \<Rightarrow> fetch_outcome) \<Rightarrow> nat \<Rightarrow> nat \<Rightarrow> event list \<times> response completion" where
  "handleClaudeRequest_loop fetch retryCount i =
     (if i < retryCount then
        (case claudeAttempt fetch i of
           Inr response \<Rightarrow> ([Fetch i], Returned response)
         | Inl message \<Rightarrow>
             if i = retryCount - 1 then ([Fetch i], Thrown (js ''Claude API Error: '' @ message))
             else
               (let (evs', result) = handleClaudeRequest_loop fetch retryCount (i + 1)
                in ([Fetch i, Sleep (min (2 ^ i * 1000) 8000)] @ evs', result)))
      else ([], Thrown (js ''All retry attempts failed'')))"
  by pat_completeness auto
termination
  by (relation "measure (\<lambda>(fetch, retryCount, i). retryCount - i)") auto

declare handleClaudeRequest_loop.simps [simp del]

definition handleClaudeRequest :: "(nat \<Rightarrow> fetch_outcome) \<Rightarrow> nat \<Rightarrow> event list \<times> response completion" where
  "handleClaudeRequest fetch retryCount = handleClaudeRequest_loop fetch retryCount 0"

text \<open>
  \<open>handleClaudeRequest(message)\<close> of the worker without retries: one call, and every
  error becomes a response of the same shape. \<open>key\<close> is the stored Claude key.
\<close>

definition handleClaudeRequest_single :: "jstring \<Rightarrow> fetch_outcome \<Rightarrow> event list \<times> response" where
  "handleClaudeRequest_single key outcome =
     (let failure = (\<lambda>message.
            \<lparr>success = False,
             error = Some (js ''Claude API Error: '' @ message),
             content_text = Some (js ''I apologize, but I couldn't process your request: '' @ message)\<rparr>)
      in if key = [] then ([], failure (js ''Claude API key is not set''))
         else
           (case outcome of
              Fails message \<Rightarrow> ([Fetch 0], failure message)
            | Http status errorText answer \<Rightarrow>
                if \<not> ok status then
                  ([Fetch 0], failure (js ''Claude API Error ('' @ decimal status @ js ''): '' @ errorText))
                else ([Fetch 0], \<lparr>success = True, error = None, content_text = answer\<rparr>)))"

text \<open>A port on which every request times out, and a provider that rejects the credential.\<close>

definition silent_port :: "nat \<Rightarrow> port_event" where
  "silent_port k = Silent"

definition unauthorized :: "nat \<Rightarrow> fetch_outcome" where
  "unauthorized i = Http 401 (js ''invalid x-api-key'') None"

section \<open>Usage meter (UsageTracker)\<close>

record usage_tracker =
  USAGE_KEY :: jstring
  MAX_FREE_USES :: nat

definition new_UsageTracker :: usage_tracker where
  "new_UsageTracker = \<lparr>USAGE_KEY = js ''ai_sidebar_usage'', MAX_FREE_USES = 25\<rparr>"

record usage_info =
  currentUsage :: nat
  remaining :: nat
  exceeded :: bool

definition usageKey :: "usage_tracker \<Rightarrow> jstring \<Rightarrow> jstring" where
  "usageKey t uid = USAGE_KEY t @ js ''_'' @ uid"

text \<open>\<open>getUsageCount\<close>: the user id is looked up again, then \<open>result[key] || 0\<close>.\<close>

definition getUsageCount :: "usage_tracker \<Rightarrow> nat \<Rightarrow> storage \<Rightarrow> nat \<times> storage" where
  "getUsageCount t now st =
     (let (uid, st1) = getUserId now st
      in ((case usage st1 (usageKey t uid) of None \<Rightarrow> 0 | Some n \<Rightarrow> n), st1))"

text \<open>\<open>{currentUsage, remaining: Math.max(0, MAX_FREE_USES - usage), exceeded: usage >= MAX_FREE_USES}\<close>\<close>

definition calculateUsageInfo :: "usage_tracker \<Rightarrow> nat \<Rightarrow> usage_info" where
  "calculateUsageInfo t n =
     \<lparr>currentUsage = n,
      remaining = nat (max 0 (int (MAX_FREE_USES t) - int n)),
      exceeded = (n \<ge> MAX_FREE_USES t)\<rparr>"

text \<open>What \<open>resetUsage\<close> writes and returns.\<close>

definition resetUsage :: "usage_tracker \<Rightarrow> nat \<Rightarrow> storage \<Rightarrow> usage_info \<times> storage" where
  "resetUsage t now st =
     (let (uid, st1) = getUserId now st
      in (\<lparr>currentUsage = 0, remaining = MAX_FREE_USES t, exceeded = False\<rparr>,
          st1\<lparr>usage := (usage st1)(usageKey t uid \<mapsto> 0)\<rparr>))"

text \<open>
  \<open>broadcastToAllTargets\<close> sends the record twice; a rejected send is caught and logged
  both times, so the function returns whatever the two sends do. The callback below
  nevertheless lets the awaited broadcast throw, as it lets every awaited call: what is
  proved of it holds for any function in that place.
\<close>

definition broadcastToAllTargets :: "bool \<Rightarrow> bool \<Rightarrow> usage_info \<Rightarrow> unit completion" where
  "broadcastToAllTargets popupRejects tabsReject usageInfo = Returned ()"

text \<open>
  The callback that \<open>incrementUsage\<close> appends to \<open>updateLock\<close> is an asynchronous function
  with four awaits: the user id, the count, the write, the broadcast. Its progress is
  the point it has reached, with the values it holds there; at each await the environment
  says whether the awaited call throws, and gives the clock that \<open>getUserId\<close> reads when
  it has to make an id.
\<close>

datatype progress =
    Queued
  | HasUser jstring
  | HasCount jstring nat
  | Persisted jstring nat
  | Resolved usage_info

datatype await_env = AwaitEnv (throws: bool) (clock: nat)

definition failure_record :: "usage_tracker \<Rightarrow> usage_info" where
  "failure_record t = \<lparr>currentUsage = 0, remaining = MAX_FREE_USES t, exceeded = False\<rparr>"

text \<open>
  The \<open>try\<close> block up to its next await. The write comes before the record is built
  and broadcast; the promise is resolved with the record after the broadcast returned.
\<close>

fun try_step :: "usage_tracker \<Rightarrow> await_env \<Rightarrow> progress \<Rightarrow> storage \<Rightarrow> (progress \<times> storage) completion" where
  "try_step t env Queued st =
     (if throws env then Thrown (js ''getUserId'')
      else (let (uid, st1) = getUserId (clock env) st in Returned (HasUser uid, st1)))"
| "try_step t env (HasUser uid) st =
     (if throws env then Thrown (js ''getUsageCount'')
      else (let (count, st1) = getUsageCount t (clock env) st
            in Returned (HasCount uid count, st1)))"
| "try_step t env (HasCount uid count) st =
     (if throws env then Thrown (js ''chrome.storage.local.set'')
      else (let newUsage = count + 1
            in Returned (Persisted uid newUsage,
                         st\<lparr>usage := (usage st)(usageKey t uid \<mapsto> newUsage)\<rparr>)))"
| "try_step t env (Persisted uid newUsage) st =
     (if throws env then Thrown (js ''broadcastToAllTargets'')
      else Returned (Resolved (calculateUsageInfo t newUsage), st))"
| "try_step t env (Resolved usageInfo) st = Returned (Resolved usageInfo, st)"

text \<open>The \<open>catch\<close>: whatever was thrown, the promise is resolved with the fixed record.\<close>

definition advance :: "usage_tracker \<Rightarrow> await_env \<Rightarrow> progress \<Rightarrow> storage \<Rightarrow> progress \<times> storage" where
  "advance t env p st =
     (case try_step t env p st of
        Returned next \<Rightarrow> next
      | Thrown message \<Rightarrow> (Resolved (failure_record t), st))"

text \<open>
  One \<open>incrementUsage()\<close> running alone: the four awaits in turn. The promise it returns
  is made by \<open>new Promise((resolve) => ...)\<close>; it is fulfilled when the callback calls
  \<open>resolve\<close>, and it is pending as long as the callback has not.
\<close>

datatype 'a promise = Fulfilled 'a | Rejected jstring | Pending

definition incrementUsage ::
  "usage_tracker \<Rightarrow> await_env \<Rightarrow> await_env \<Rightarrow> await_env \<Rightarrow> await_env \<Rightarrow> storage
     \<Rightarrow> usage_info promise \<times> storage" where
  "incrementUsage t e1 e2 e3 e4 st =
     (let (p1, st1) = advance t e1 Queued st;
          (p2, st2) = advance t e2 p1 st1;
          (p3, st3) = advance t e3 p2 st2;
          (p4, st4) = advance t e4 p3 st3
      in (case p4 of
            Resolved usageInfo \<Rightarrow> (Fulfilled usageInfo, st4)
          | _ \<Rightarrow> (Pending, st4)))"

text \<open>The stored counter of an installation, as \<open>getUsageCount\<close> reads it.\<close>

definition persisted_count :: "usage_tracker \<Rightarrow> jstring \<Rightarrow> storage \<Rightarrow> nat" where
  "persisted_count t uid st = (case usage st (usageKey t uid) of None \<Rightarrow> 0 | Some n \<Rightarrow> n)"

subsection \<open>Concurrent calls\<close>

text \<open>
  \<open>updateLock\<close> is a field of the \<open>UsageTracker\<close> object, set to \<open>Promise.resolve()\<close> by
  the constructor, and every page and the popup build an object of their own
  (\<open>new window.UsageTracker()\<close>); all of them read and write the one
  \<open>chrome.storage.local\<close>. An installation is therefore one storage and, for every
  object, the chain of callbacks that its \<open>updateLock\<close> holds; objects are numbered, and
  an object that has not been called yet has the empty chain.

  A call of \<open>incrementUsage\<close> on an object replaces its \<open>updateLock\<close> by
  \<open>updateLock.then(callback)\<close>: the callbacks of one object form a chain in the order of
  the calls, and \<open>then\<close> starts a callback only when the promise before it is settled,
  that is when the callback before it in the same chain has run to its end. The scheduler
  is free otherwise: at any moment a new call may arrive on any object, or any callback of
  any object may be picked to run up to its next await. A callback that \<open>then\<close> has not
  released yet cannot run, and picking it changes nothing.
\<close>

record installation =
  store :: storage
  locks :: "nat \<Rightarrow> progress list"

datatype sched_event = Call nat | Run nat nat await_env

fun isResolved :: "progress \<Rightarrow> bool" where
  "isResolved (Resolved usageInfo) = True"
| "isResolved p = False"

definition released :: "nat \<Rightarrow> progress list \<Rightarrow> bool" where
  "released k ps \<longleftrightarrow> k < length ps \<and> list_all isResolved (take k ps) \<and> \<not> isResolved (ps ! k)"

definition fire :: "usage_tracker \<Rightarrow> installation \<Rightarrow> sched_event \<Rightarrow> installation" where
  "fire t m ev =
     (case ev of
        Call obj \<Rightarrow> m\<lparr>locks := (locks m)(obj := locks m obj @ [Queued])\<rparr>
      | Run obj k env \<Rightarrow>
          if released k (locks m obj) then
            (let (p, st) = advance t env (locks m obj ! k) (store m)
             in \<lparr>store = st, locks = (locks m)(obj := (locks m obj)[k := p])\<rparr>)
          else m)"

definition idle :: "storage \<Rightarrow> installation" where
  "idle st = \<lparr>store = st, locks = (\<lambda>obj. [])\<rparr>"

text \<open>The installation after the events of a schedule, no object having been called before.\<close>

definition schedule :: "usage_tracker \<Rightarrow> sched_event list \<Rightarrow> storage \<Rightarrow> installation" where
  "schedule t evs st = foldl (fire t) (idle st) evs"


definition next_callback :: "progress list \<Rightarrow> nat option" where
  "next_callback ps =
     (if list_all isResolved ps then None else Some (length (takeWhile isResolved ps)))"









text \<open>An installation with an id and no usage yet, and what awaited calls may do.\<close>

definition installed :: storage where
  "installed = \<lparr>userId = Some (js ''user_17''), usage = Map.empty, memory = Map.empty\<rparr>"

definition fine :: await_env where
  "fine = AwaitEnv False 99"

definition broken :: await_env where
  "broken = AwaitEnv True 99"









section \<open>Hybrid queries\<close>

text \<open>
  The hybrid paths are written over \<open>queryPerplexity\<close> and \<open>queryClaude\<close>. Both are
  taken as they are used: functions from the prompt, and from whether a page context is
  passed on, to a result \<open>{text, model}\<close> or an error. The calls made, in order, are the
  trace of a hybrid query.
\<close>

record answer =
  answer_text :: "jstring option"
  answer_model :: jstring

datatype provider_call = AskPerplexity jstring bool | AskClaude jstring bool

type_synonym provider = "jstring \<Rightarrow> bool \<Rightarrow> answer completion"

text \<open>A value in a template literal: a missing text prints as \<open>undefined\<close>.\<close>

definition interpolate :: "jstring option \<Rightarrow> jstring" where
  "interpolate v = (case v of None \<Rightarrow> js ''undefined'' | Some s \<Rightarrow> s)"

subsection \<open>\<open>AIService.queryHybrid\<close>\<close>

record hybrid_answer =
  h_text :: "jstring option"
  h_model :: jstring
  originalData :: "jstring option"

definition perplexityPrompt :: "jstring \<Rightarrow> jstring" where
  "perplexityPrompt prompt =
     prompt @ js ''\<newline>Provide detailed, factual information. Include specific details like names, addresses, ratings, and any relevant current data.''"

definition formattingPrompt :: "jstring \<Rightarrow> jstring \<Rightarrow> jstring" where
  "formattingPrompt prompt rawData =
     js ''I have raw data about ''
       @ [34]
       @ prompt
       @ [34]
       @ js '' that needs to be formatted into a clear, well-organized response. \<newline>''
       @ js ''    Here's the raw data:\<newline>''
       @ js ''    ''
       @ rawData
       @ js ''\<newline>''
       @ js ''    \<newline>''
       @ js ''    Please format this information into a clear, helpful response that:\<newline>''
       @ js ''    1. Organizes the information logically\<newline>''
       @ js ''    2. Highlights the most relevant details\<newline>''
       @ js ''    3. Makes it easy to understand and act on\<newline>''
       @ js ''    4. Adds any relevant context or tips\<newline>''
       @ js ''    \<newline>''
       @ js ''    Format the response in a user-friendly way, but don't add any information that wasn't in the original data.''"

text \<open>
  The real-time call comes first. When it brings no text, the analytical model is asked
  the question itself and the answer is labelled a fallback; the source reads \<open>.text\<close>
  off the promise of that call, not off its result, so what it appends is
  \<open>undefined\<close>. Otherwise the analytical model is asked to format the raw data.
\<close>

definition queryHybrid ::
  "provider \<Rightarrow> provider \<Rightarrow> jstring \<Rightarrow> bool \<Rightarrow> provider_call list \<times> hybrid_answer completion" where
  "queryHybrid queryPerplexity queryClaude prompt hasContext =
     (case queryPerplexity (perplexityPrompt prompt) hasContext of
        Thrown message \<Rightarrow> ([AskPerplexity (perplexityPrompt prompt) hasContext], Thrown message)
      | Returned perplexityResponse \<Rightarrow>
          (case answer_text perplexityResponse of
             None \<Rightarrow>
               ([AskPerplexity (perplexityPrompt prompt) hasContext, AskClaude prompt hasContext],
                Returned \<lparr>h_text = Some (js ''I couldn't retrieve real-time data, but here's my best answer based on what I know:\<newline>\<newline>''
                                          @ interpolate None),
                          h_model = js ''Claude (fallback)'', originalData = None\<rparr>)
           | Some rawData \<Rightarrow>
               if rawData = [] then
                 ([AskPerplexity (perplexityPrompt prompt) hasContext, AskClaude prompt hasContext],
                  Returned \<lparr>h_text = Some (js ''I couldn't retrieve real-time data, but here's my best answer based on what I know:\<newline>\<newline>''
                                            @ interpolate None),
                            h_model = js ''Claude (fallback)'', originalData = None\<rparr>)
               else
                 (case queryClaude (formattingPrompt prompt rawData) False of
                    Thrown message \<Rightarrow>
                      ([AskPerplexity (perplexityPrompt prompt) hasContext,
                        AskClaude (formattingPrompt prompt rawData) False], Thrown message)
                  | Returned claudeResponse \<Rightarrow>
                      ([AskPerplexity (perplexityPrompt prompt) hasContext,
                        AskClaude (formattingPrompt prompt rawData) False],
                       Returned \<lparr>h_text = answer_text claudeResponse,
                                 h_model = js ''hybrid (Perplexity + Claude)'',
                                 originalData = Some rawData\<rparr>))))"

subsection \<open>\<open>ModelDelegationService.executeQuery\<close>\<close>

definition enhancementPrompt :: "jstring option \<Rightarrow> jstring option \<Rightarrow> jstring" where
  "enhancementPrompt perplexityResponse claudeResponse =
     js ''\<newline>''
       @ js ''            I have two responses to merge and enhance:\<newline>''
       @ js ''\<newline>''
       @ js ''            Real-time Data:\<newline>''
       @ js ''            ''
       @ interpolate perplexityResponse
       @ js ''\<newline>''
       @ js ''\<newline>''
       @ js ''            Analysis:\<newline>''
       @ js ''            ''
       @ interpolate claudeResponse
       @ js ''\<newline>''
       @ js ''\<newline>''
       @ js ''            Please create a comprehensive response that:\<newline>''
       @ js ''            1. Combines the most relevant information from both sources\<newline>''
       @ js ''            2. Removes any redundancies\<newline>''
       @ js ''            3. Presents a clear, logical flow of information\<newline>''
       @ js ''            4. Adds any missing context\<newline>''
       @ js ''            5. Ensures consistent formatting\<newline>''
       @ js ''\<newline>''
       @ js ''            Format the response to be highly readable with:\<newline>''
       @ js ''            - Clear section headings\<newline>''
       @ js ''            - Bullet points for key details\<newline>''
       @ js ''            - Numbered lists for steps or sequences\<newline>''
       @ js ''            - Bold text for important information\<newline>''
       @ js ''            ''"

text \<open>\<open>processHybridResponse\<close>: one more analytical call, without a context.\<close>

definition processHybridResponse :: "provider \<Rightarrow> jstring option \<Rightarrow> jstring option \<Rightarrow> answer completion" where
  "processHybridResponse queryClaude perplexityResponse claudeResponse =
     queryClaude (enhancementPrompt perplexityResponse claudeResponse) False"

record executed =
  e_text :: "jstring option"
  e_model :: jstring

text \<open>
  For a hybrid decision both models are asked at once and \<open>Promise.all\<close> waits for both;
  it rejects when one of them does (the real-time error is taken first when both do).
  The merge follows in every other case. A decision for one model asks that model.
\<close>

definition executeQuery ::
  "(jstring \<Rightarrow> jstring) \<Rightarrow> provider \<Rightarrow> provider \<Rightarrow> jstring \<Rightarrow> bool
     \<Rightarrow> provider_call list \<times> executed completion" where
  "executeQuery lc queryPerplexity queryClaude query hasContext =
     (let modelDecision = determineModelForQuery lc query
      in if d_model modelDecision = js ''hybrid'' then
           (case (queryPerplexity query hasContext, queryClaude query hasContext) of
              (Thrown message, _) \<Rightarrow>
                ([AskPerplexity query hasContext, AskClaude query hasContext], Thrown message)
            | (Returned perplexityResponse, Thrown message) \<Rightarrow>
                ([AskPerplexity query hasContext, AskClaude query hasContext], Thrown message)
            | (Returned perplexityResponse, Returned claudeResponse) \<Rightarrow>
                (let merge = enhancementPrompt (answer_text perplexityResponse) (answer_text claudeResponse)
                 in (case processHybridResponse queryClaude (answer_text perplexityResponse)
                            (answer_text claudeResponse) of
                       Thrown message \<Rightarrow>
                         ([AskPerplexity query hasContext, AskClaude query hasContext,
                           AskClaude merge False], Thrown message)
                     | Returned enhancedResponse \<Rightarrow>
                         ([AskPerplexity query hasContext, AskClaude query hasContext,
                           AskClaude merge False],
                          Returned \<lparr>e_text = answer_text enhancedResponse, e_model = js ''hybrid''\<rparr>))))
         else if d_model modelDecision = js ''perplexity'' then
           (case queryPerplexity query hasContext of
              Thrown message \<Rightarrow> ([AskPerplexity query hasContext], Thrown message)
            | Returned response \<Rightarrow>
                ([AskPerplexity query hasContext],
                 Returned \<lparr>e_text = answer_text response, e_model = d_model modelDecision\<rparr>))
         else
           (case queryClaude query hasContext of
              Thrown message \<Rightarrow> ([AskClaude query hasContext], Thrown message)
            | Returned response \<Rightarrow>
                ([AskClaude query hasContext],
                 Returned \<lparr>e_text = answer_text response, e_model = d_model modelDecision\<rparr>)))"

text \<open>
  The apology that the worker's real-time handler returns as a successful answer when
  its attempts are used up, a real-time leg that comes back with it, and an analytical
  model that answers every prompt.
\<close>

definition apology_text :: jstring where
  "apology_text = js ''I apologize, but I couldn't process your request. Please try again later.''"

definition apologizing :: provider where
  "apologizing prompt hasContext = Returned \<lparr>answer_text = Some apology_text, answer_model = js ''perplexity''\<rparr>"

definition analysing :: provider where
  "analysing prompt hasContext = Returned \<lparr>answer_text = Some (js ''analysis''), answer_model = js ''claude''\<rparr>"

section \<open>Rule-based routing (AIService)\<close>

record routing_decision =
  r_model :: jstring
  useWebpageContext :: bool
  r_reasoning :: jstring

text \<open>
  \<open>/when is .* this year/i\<close>, \<open>/lookup .* event/i\<close>, \<open>/schedule for .*/i\<close>,
  \<open>/dates? for .*/i\<close>, \<open>/time[s]? for .*/i\<close>
\<close>

definition eventPatterns :: "rx list" where
  "eventPatterns =
     [seqs [str ''when is '', Star AnyChar, str '' this year''],
      seqs [str ''lookup '', Star AnyChar, str '' event''],
      seqs [str ''schedule for '', Star AnyChar],
      seqs [str ''date'', Opt (Lit 115), str '' for '', Star AnyChar],
      seqs [str ''time'', Opt (OneOf [Ch 115]), str '' for '', Star AnyChar]]"

definition aiService_realTimeKeywords :: "jstring list" where
  "aiService_realTimeKeywords = map js
     [''recommend'', ''pizza'', ''restaurant'', ''cafe'', ''bar'', ''food'',
      ''near'', ''open'', ''current'', ''today'', ''weather'', ''price'',
      ''available'', ''location'', ''address'', ''weekend'', ''tonight'',
      ''event'', ''happening'', ''things to do'', ''what's on'',
      ''activities'', ''tomorrow'', ''upcoming'', ''this week'',
      ''next week'', ''show'', ''playing'', ''screening'', ''showing'',
      ''hours'', ''time'', ''schedule'', ''booking'']"

definition eventKeywords :: "jstring list" where
  "eventKeywords = map js
     [''this weekend'', ''tonight'', ''today'',
      ''things to do'', ''activities'', ''events'',
      ''what's happening'', ''going on'']"

text \<open>
  \<open>/who (?:runs|owns|started|founded|leads|manages|operates)/i\<close>,
  \<open>/founder|ceo|owner|president|director/i\<close>,
  \<open>/when (?:was|did).*(?:found|start|begin|establish)/i\<close>,
  \<open>/company leadership|management team/i\<close>
\<close>

definition companyInfoPatterns :: "rx list" where
  "companyInfoPatterns =
     [seqs [str ''who '', alts [str ''runs'', str ''owns'', str ''started'', str ''founded'',
                                str ''leads'', str ''manages'', str ''operates'']],
      alts [str ''founder'', str ''ceo'', str ''owner'', str ''president'', str ''director''],
      seqs [str ''when '', alts [str ''was'', str ''did''], Star AnyChar,
            alts [str ''found'', str ''start'', str ''begin'', str ''establish'']],
      alts [str ''company leadership'', str ''management team'']]"

text \<open>
  \<open>calculateContextRelevance\<close>: the words of more than three code units of the prompt
  that also occur in the first 1000 code units of the context, over the number of such
  words of the prompt; the words are collected in sets. With no such word the quotient is
  \<open>NaN\<close>, rendered as \<open>None\<close>, and \<open>NaN < 0.3\<close> is false.
\<close>

definition significantWords :: "jstring \<Rightarrow> jstring list" where
  "significantWords s = remdups (filter (\<lambda>w. length w > 3) (split_rx flags_none (Plus (NoneOf [WordCh])) s))"

definition calculateContextRelevance :: "(jstring \<Rightarrow> jstring) \<Rightarrow> jstring \<Rightarrow> jstring \<Rightarrow> rat option" where
  "calculateContextRelevance lc prompt contextText =
     (let promptWords = significantWords (lc prompt);
          contextWords = significantWords (take 1000 (lc contextText));
          matches = length (filter (\<lambda>word. word \<in> set contextWords) promptWords)
      in if promptWords = [] then None
         else Some (of_nat matches / of_nat (length promptWords)))"

definition below :: "rat option \<Rightarrow> rat \<Rightarrow> bool" where
  "below v bound = (case v of None \<Rightarrow> False | Some x \<Rightarrow> x < bound)"

definition isWebpageQuery :: "(jstring \<Rightarrow> jstring) \<Rightarrow> jstring \<Rightarrow> bool" where
  "isWebpageQuery lc prompt =
     (let lowercasePrompt = lc prompt;
          explicitTerms = map js
            [''this page'', ''this website'', ''this site'', ''this company'',
             ''the page'', ''the website'', ''the company'', ''this webpage''];
          contextualTerms = map js [''what does'', ''tell me about'', ''explain'', ''describe'']
      in list_ex (\<lambda>term. includes_js lowercasePrompt term) explicitTerms
         \<or> (list_ex (\<lambda>term. includes_js lowercasePrompt term) contextualTerms
             \<and> includes_js lowercasePrompt (js ''this'')))"

definition basicQueries :: "jstring list" where
  "basicQueries = map js
     [''hello'', ''hi'', ''hey'', ''good morning'', ''good afternoon'',
      ''good evening'', ''help'', ''what can you do'']"

text \<open>
  The conditions of the rules before the webpage rule, in the order of the cascade.
  \<open>visibleText\<close> is \<open>context?.visibleText\<close>, \<open>None\<close> without a context or a text.
\<close>

definition isEventLookup :: "jstring \<Rightarrow> bool" where
  "isEventLookup prompt = list_ex (\<lambda>pattern. test flags_i pattern prompt) eventPatterns"

definition hasLocation :: "jstring \<Rightarrow> bool" where
  "hasLocation prompt = test flags_i locationPattern prompt"

definition hasEventKeyword :: "(jstring \<Rightarrow> jstring) \<Rightarrow> jstring \<Rightarrow> bool" where
  "hasEventKeyword lc prompt = list_ex (\<lambda>kw. includes_js (trim (lc prompt)) kw) eventKeywords"

definition hasRealTimeKeyword :: "(jstring \<Rightarrow> jstring) \<Rightarrow> jstring \<Rightarrow> bool" where
  "hasRealTimeKeyword lc prompt =
     list_ex (\<lambda>kw. includes_js (trim (lc prompt)) (lc kw)) aiService_realTimeKeywords"

definition isCompanyInfoQuery :: "jstring \<Rightarrow> bool" where
  "isCompanyInfoQuery prompt = list_ex (\<lambda>pattern. test flags_i pattern prompt) companyInfoPatterns"

definition needsExternalSearch :: "(jstring \<Rightarrow> jstring) \<Rightarrow> jstring \<Rightarrow> jstring option \<Rightarrow> bool" where
  "needsExternalSearch lc prompt visibleText =
     (case visibleText of
        None \<Rightarrow> False
      | Some contextText \<Rightarrow>
          isCompanyInfoQuery prompt \<and> contextText \<noteq> []
          \<and> below (calculateContextRelevance lc prompt contextText) (3 / 10))"

definition aiService_determineModelForQuery ::
  "(jstring \<Rightarrow> jstring) \<Rightarrow> jstring \<Rightarrow> jstring option \<Rightarrow> routing_decision" where
  "aiService_determineModelForQuery lc prompt visibleText =
     (let lowercasePrompt = trim (lc prompt)
      in if isEventLookup prompt then
           \<lparr>r_model = js ''perplexity'', useWebpageContext = False,
            r_reasoning = js ''Event lookup query''\<rparr>
         else if hasLocation prompt \<and> hasEventKeyword lc prompt then
           \<lparr>r_model = js ''perplexity'', useWebpageContext = False,
            r_reasoning = js ''Query requires current local event information''\<rparr>
         else if hasLocation prompt \<and> hasRealTimeKeyword lc prompt then
           \<lparr>r_model = js ''perplexity'', useWebpageContext = False,
            r_reasoning = js ''Query requires current local information''\<rparr>
         else if hasRealTimeKeyword lc prompt
                 \<and> \<not> startsWith lowercasePrompt (js ''what is'')
                 \<and> \<not> startsWith lowercasePrompt (js ''how does'') then
           \<lparr>r_model = js ''perplexity'', useWebpageContext = False,
            r_reasoning = js ''Real-time information query''\<rparr>
         else if needsExternalSearch lc prompt visibleText then
           \<lparr>r_model = js ''perplexity'', useWebpageContext = False,
            r_reasoning = js ''Company information query requiring external search''\<rparr>
         else if isWebpageQuery lc prompt then
           \<lparr>r_model = js ''perplexity'', useWebpageContext = True,
            r_reasoning = js ''Query is about current webpage''\<rparr>
         else if lowercasePrompt \<in> set basicQueries then
           \<lparr>r_model = js ''claude'', useWebpageContext = False,
            r_reasoning = js ''Basic greeting''\<rparr>
         else
           \<lparr>r_model = js ''claude'', useWebpageContext = False,
            r_reasoning = js ''General knowledge query''\<rparr>)"

text \<open>
  A query that refers to the page in the words of the routing table: \<open>this page\<close>,
  \<open>this site\<close>, \<open>this company\<close> or \<open>this website\<close>, or one of \<open>explain\<close>, \<open>describe\<close>,
  \<open>tell me about\<close> together with \<open>this\<close>.
\<close>

definition refersToPage :: "(jstring \<Rightarrow> jstring) \<Rightarrow> jstring \<Rightarrow> bool" where
  "refersToPage lc prompt \<longleftrightarrow>
     includes_js (lc prompt) (js ''this page'') \<or> includes_js (lc prompt) (js ''this site'')
     \<or> includes_js (lc prompt) (js ''this company'') \<or> includes_js (lc prompt) (js ''this website'')
     \<or> ((includes_js (lc prompt) (js ''explain'') \<or> includes_js (lc prompt) (js ''describe'')
          \<or> includes_js (lc prompt) (js ''tell me about''))
         \<and> includes_js (lc prompt) (js ''this''))"

definition explain_this :: jstring where
  "explain_this = js ''Explain this''"

definition summarize_page :: jstring where
  "summarize_page = js ''Summarize this page''"

section \<open>Conversation memory (memory-service.js)\<close>

record memory_service =
  MEMORY_KEY :: jstring
  MAX_MESSAGES :: nat
  SESSION_ID :: jstring

text \<open>The constructor; the session id is \<open>Date.now().toString()\<close> at construction.\<close>

definition new_MemoryService :: "nat \<Rightarrow> memory_service" where
  "new_MemoryService now =
     \<lparr>MEMORY_KEY = js ''ai_sidebar_memory'', MAX_MESSAGES = 50, SESSION_ID = decimal now\<rparr>"

text \<open>
  One call of \<open>storeConversation(message, response, model)\<close>, with what the call reads from
  its environment: the clock at the user-id lookup, the clock when the entry is built, and
  whether \<open>chrome.runtime.lastError\<close> is set after the write.
\<close>

record store_call =
  call_message :: jstring
  call_response :: jstring
  call_model :: jstring
  idClock :: nat
  entryClock :: nat
  lastError :: bool

definition conversationKey :: "memory_service \<Rightarrow> jstring \<Rightarrow> jstring" where
  "conversationKey svc uid = MEMORY_KEY svc @ js ''_'' @ uid"

text \<open>\<open>result[conversationKey] || []\<close>\<close>

definition conversations_of :: "storage \<Rightarrow> jstring \<Rightarrow> conversation list" where
  "conversations_of st key = (case memory st key of None \<Rightarrow> [] | Some cs \<Rightarrow> cs)"

definition newConversation :: "memory_service \<Rightarrow> store_call \<Rightarrow> conversation" where
  "newConversation svc c =
     \<lparr>timestamp = entryClock c, sessionId = SESSION_ID svc, conv_message = call_message c,
      conv_response = call_response c, conv_model = call_model c\<rparr>"

text \<open>
  The result is \<open>None\<close> for the \<open>null\<close> of the source (invalid arguments, or a failed
  write, which leaves the stored log as it was), and the stored list otherwise.
\<close>

definition storeConversation ::
  "memory_service \<Rightarrow> store_call \<Rightarrow> storage \<Rightarrow> conversation list option \<times> storage" where
  "storeConversation svc c st =
     (if call_message c = [] \<or> call_response c = [] then (None, st)
      else
        (let (uid, st1) = getUserId (idClock c) st;
             key = conversationKey svc uid;
             pushed = conversations_of st1 key @ [newConversation svc c];
             conversations = (if length pushed > MAX_MESSAGES svc then tl pushed else pushed)
         in if lastError c then (None, st1)
            else (Some conversations, st1\<lparr>memory := (memory st1)(key \<mapsto> conversations)\<rparr>)))"

text \<open>A sequence of store operations, one after the other.\<close>

fun storeConversations :: "memory_service \<Rightarrow> store_call list \<Rightarrow> storage \<Rightarrow> storage" where
  "storeConversations svc [] st = st"
| "storeConversations svc (c # cs) st = storeConversations svc cs (snd (storeConversation svc c st))"

text \<open>The log of the installation: the list stored under the key of the stored user id.\<close>

definition stored_log :: "memory_service \<Rightarrow> storage \<Rightarrow> conversation list" where
  "stored_log svc st =
     (case userId st of None \<Rightarrow> [] | Some u \<Rightarrow> if u = [] then [] else conversations_of st (conversationKey svc u))"

text \<open>The calls that append: valid arguments and a write that succeeds.\<close>

definition appends :: "store_call \<Rightarrow> bool" where
  "appends c \<longleftrightarrow> call_message c \<noteq> [] \<and> call_response c \<noteq> [] \<and> \<not> lastError c"

definition last_n :: "nat \<Rightarrow> 'a list \<Rightarrow> 'a list" where
  "last_n n xs = drop (length xs - n) xs"

text \<open>Sixty valid calls, numbered by their clock, and a store nothing was written to.\<close>

definition sixty_calls :: "store_call list" where
  "sixty_calls = map (\<lambda>i. \<lparr>call_message = js ''q'' @ decimal i, call_response = js ''a'' @ decimal i,
       call_model = js ''claude'', idClock = 1000, entryClock = 1000 + i, lastError = False\<rparr>) [0..<60]"

definition empty_storage :: storage where
  "empty_storage = \<lparr>userId = None, usage = Map.empty, memory = Map.empty\<rparr>"

subsection \<open>\<open>AIService.storeConversation\<close>\<close>

text \<open>
  The service has a method of the same name, which would keep a log of its own under
  \<open>conversation_<sessionId>\<close> with the same push and shift. Its first statement is
  \<open>await this.getSessionId()\<close>, and the class defines no method \<open>getSessionId\<close>: the
  call throws a \<open>TypeError\<close>, the method rejects, and the storage is left as it is.
\<close>

record history_entry =
  entry_timestamp :: nat
  entry_prompt :: jstring
  entry_response :: jstring
  entry_model :: jstring

definition aiService_getSessionId :: "jstring completion" where
  "aiService_getSessionId = Thrown (js ''this.getSessionId is not a function'')"

definition aiService_storeConversation ::
  "nat \<Rightarrow> jstring \<Rightarrow> jstring \<Rightarrow> jstring \<Rightarrow> (jstring \<rightharpoonup> history_entry list)
     \<Rightarrow> unit completion \<times> (jstring \<rightharpoonup> history_entry list)" where
  "aiService_storeConversation now prompt reply model_name stored =
     (case aiService_getSessionId of
        Thrown thrown \<Rightarrow> (Thrown thrown, stored)
      | Returned sid \<Rightarrow>
          (let key = js ''conversation_'' @ sid;
               history = (case stored key of None \<Rightarrow> [] | Some h \<Rightarrow> h);
               pushed = history @ [\<lparr>entry_timestamp = now, entry_prompt = prompt,
                                     entry_response = reply, entry_model = model_name\<rparr>];
               kept = (if length pushed > 50 then tl pushed else pushed)
           in (Returned (), stored(key \<mapsto> kept))))"

section \<open>Response formatter (AIService.formatResponse)\<close>

text \<open>\<open>/<[^>]*>/g\<close>, replaced by the empty string.\<close>

definition tagPattern :: rx where
  "tagPattern = seqs [Lit 60, Star (NoneOf [Ch 62]), Lit 62]"

definition stripTags :: "jstring \<Rightarrow> jstring" where
  "stripTags s = replaceAll flags_none tagPattern (\<lambda>g. []) s"

text \<open>\<open>/\*\*(.*?)\*\*/g\<close>, replaced by \<open><strong>$1</strong>\<close>.\<close>

definition boldPattern :: rx where
  "boldPattern = seqs [str ''**'', Group 1 (LazyStar AnyChar), str ''**'']"

definition convertBold :: "jstring \<Rightarrow> jstring" where
  "convertBold s =
     replaceAll flags_none boldPattern (\<lambda>g. js ''<strong>'' @ interpolate g @ js ''</strong>'') s"

text \<open>The bullet \<open>U+2022\<close>, replaced by itself.\<close>

definition normalizeBullets :: "jstring \<Rightarrow> jstring" where
  "normalizeBullets s = replaceAll flags_none (Lit 8226) (\<lambda>g. [8226]) s"

text \<open>\<open>/\n\n+/\<close>, \<open>/(?=\d+\.)/\<close>, \<open>/\d+\.\s*(.+)/\<close>\<close>

definition sectionBreak :: rx where
  "sectionBreak = Seq (Lit 10) (Plus (Lit 10))"

definition itemStart :: rx where
  "itemStart = Ahead (Seq (Plus (OneOf [Digit])) (Lit 46))"

definition titlePattern :: rx where
  "titlePattern = seqs [Plus (OneOf [Digit]), Lit 46, Star (OneOf [Space]), Group 1 (Plus AnyChar)]"

text \<open>\<open>/^\s*(Location|Date|Time|Price|Cost|When):\s*(.+)/i\<close>\<close>

definition labelPattern :: rx where
  "labelPattern =
     seqs [Bol, Star (OneOf [Space]),
           Group 1 (alts [str ''Location'', str ''Date'', str ''Time'', str ''Price'', str ''Cost'',
                          str ''When'']),
           Lit 58, Star (OneOf [Space]), Group 2 (Plus AnyChar)]"

text \<open>\<open>/^[-\<bullet>]/m\<close> and \<open>/^[-\<bullet>]\s*/m\<close>, the bullet being \<open>U+2022\<close>.\<close>

definition bulletLine :: rx where
  "bulletLine = Seq Bol (OneOf [Ch 45, Ch 8226])"

definition bulletMarker :: rx where
  "bulletMarker = seqs [Bol, OneOf [Ch 45, Ch 8226], Star (OneOf [Space])]"

text \<open>One detail line of a numbered item.\<close>

definition formatDetail :: "jstring \<Rightarrow> jstring" where
  "formatDetail detail =
     (case match_groups flags_i labelPattern detail of
        Some labelMatch \<Rightarrow>
          js ''<div class='' @ [34] @ js ''event-detail'' @ [34] @ js ''><strong>''
            @ interpolate (labelMatch 1) @ js '':</strong> '' @ interpolate (labelMatch 2) @ js ''</div>''
      | None \<Rightarrow>
          js ''<div class='' @ [34] @ js ''event-description'' @ [34] @ js ''>''
            @ trim detail @ js ''</div>'')"

text \<open>What one item of a numbered section pushes; an item that is blank or has no title pushes nothing.\<close>

definition formatItem :: "jstring \<Rightarrow> jstring list" where
  "formatItem item =
     (if trim item = [] then []
      else
        (case split_char 10 item of
           [] \<Rightarrow> []
         | title # details \<Rightarrow>
             (case match_groups flags_none titlePattern title of
                None \<Rightarrow> []
              | Some titleMatch \<Rightarrow>
                  [js ''<div class='' @ [34] @ js ''event-item'' @ [34] @ js ''>'',
                   js ''<h3>'' @ interpolate (titleMatch 1) @ js ''</h3>'',
                   join [10] (map formatDetail details),
                   js ''</div>''])))"

text \<open>What one section pushes: a numbered list, a bullet list, or a paragraph.\<close>

definition formatSection :: "jstring \<Rightarrow> jstring list" where
  "formatSection section =
     (if startsWith (trim section) (js ''1.'') then
        [js ''<div class='' @ [34] @ js ''event-list'' @ [34] @ js ''>'']
        @ concat (map formatItem (split_rx flags_none itemStart section))
        @ [js ''</div>'']
      else if test flags_m bulletLine section then
        [js ''<ul>'']
        @ map (\<lambda>item. js ''<li>'' @ trim item @ js ''</li>'')
              (filter (\<lambda>i. trim i \<noteq> []) (split_rx flags_m bulletMarker section))
        @ [js ''</ul>'']
      else [js ''<p>'' @ trim section @ js ''</p>''])"

definition formatResponse :: "jstring \<Rightarrow> jstring" where
  "formatResponse text0 =
     (if text0 = [] then []
      else
        (let cleaned = normalizeBullets (convertBold (stripTags text0));
             sections = split_rx flags_none sectionBreak cleaned
         in join [10] (concat (map formatSection sections))))"

text \<open>Inputs: a text whose only blank line appears when a tag is removed, and plain prose in tags.\<close>

definition tag_between_lines :: jstring where
  "tag_between_lines = js ''a\<newline><br>\<newline>c''"

definition prose_in_tags :: jstring where
  "prose_in_tags = js ''  The <b>sky</b> is blue. ''"

section \<open>Properties\<close>

section \<open>The matcher: positions and fuel\<close>

lemma reaches_refl: "reaches st st"
  unfolding reaches_def by (rule exI[of _ 0]) simp

lemma reaches_trans: "reaches a b \<Longrightarrow> reaches b c \<Longrightarrow> reaches a c"
  unfolding reaches_def
  apply (elim exE conjE)
  subgoal for k l
    by (rule exI[of _ "k + l"]) (auto simp: add.commute)
  done

lemma consume_reaches: "st' \<in> set (consume fl a st) \<Longrightarrow> reaches st st'"
  by (cases st; cases "rest st") (auto simp: reaches_def split: if_splits intro!: exI[of _ "Suc 0"])

lemma run_reaches:
  "\<And>st'. st' \<in> set (run fl n r st) \<Longrightarrow> reaches st st'"
  "\<And>st'. st' \<in> set (runs fl n r sts) \<Longrightarrow> \<exists>st \<in> set sts. reaches st st'"
proof (induction fl n r st and fl n r sts rule: run_runs.induct)
  case (6 fl n r1 r2 st)
  from "6.prems" obtain st1 where "st1 \<in> set (run fl n r1 st)" "reaches st1 st'"
    using "6.IH"(2) by auto
  then show ?case using "6.IH"(1) reaches_trans by blast
next
  case (9 fl n r st)
  show ?case
  proof (cases "st' = st")
    case True
    then show ?thesis by (simp add: reaches_refl)
  next
    case False
    then have "st' \<in> set (runs fl n (Star r) (filter (advanced st) (run fl (Suc n) r st)))"
      using "9.prems" by simp
    then obtain st1 where "st1 \<in> set (run fl (Suc n) r st)" "reaches st1 st'"
      using "9.IH"(2) by auto
    then show ?thesis using "9.IH"(1) reaches_trans by blast
  qed
next
  case (11 fl n r st)
  show ?case
  proof (cases "st' = st")
    case True
    then show ?thesis by (simp add: reaches_refl)
  next
    case False
    then have "st' \<in> set (runs fl n (LazyStar r) (filter (advanced st) (run fl (Suc n) r st)))"
      using "11.prems" by simp
    then obtain st1 where "st1 \<in> set (run fl (Suc n) r st)" "reaches st1 st'"
      using "11.IH"(2) by auto
    then show ?thesis using "11.IH"(1) reaches_trans by blast
  qed
next
  case (12 fl n k r st)
  then show ?case by (auto simp: capture_def reaches_def)
next
  case (15 fl n r st)
  then show ?case by (auto simp: reaches_def split: list.splits intro!: exI[of _ 0])
qed (auto simp: consume_reaches reaches_refl split: if_splits)

text \<open>
  Fuel beyond the length of the remaining text changes nothing: an iteration of a starred
  pattern is accepted only if it moves the position on, so there are at most as many
  nested iterations as code units left.
\<close>

lemma reaches_length: "reaches st st' \<Longrightarrow> length (rest st') \<le> length (rest st)"
  by (auto simp: reaches_def)

lemma advanced_shorter:
  "reaches st st' \<Longrightarrow> advanced st st' \<Longrightarrow> length (rest st') < length (rest st)"
  by (auto simp: reaches_def advanced_def)

lemma run_fuel:
  "\<And>m. length (rest st) < n \<Longrightarrow> length (rest st) < m \<Longrightarrow> run fl n r st = run fl m r st"
  "\<And>m. (\<forall>st \<in> set sts. length (rest st) < n \<and> length (rest st) < m) \<Longrightarrow>
        runs fl n r sts = runs fl m r sts"
proof (induction fl n r st and fl n r sts rule: run_runs.induct)
  case (6 fl n r1 r2 st)
  have a: "run fl n r1 st = run fl m r1 st" using "6.IH"(1) "6.prems" by blast
  have "\<forall>st1 \<in> set (run fl n r1 st). length (rest st1) < n \<and> length (rest st1) < m"
    using run_reaches(1) reaches_length "6.prems" by (metis le_less_trans)
  then have "runs fl n r2 (run fl n r1 st) = runs fl m r2 (run fl n r1 st)"
    using "6.IH"(2) by blast
  then show ?case using a by simp
next
  case (7 fl n r1 r2 st)
  then show ?case by (metis run.simps(7))
next
  case (8 fl r st)
  then show ?case by simp
next
  case (9 fl n r st)
  from "9.prems" obtain m' where m: "m = Suc m'" by (cases m) auto
  have a: "run fl (Suc n) r st = run fl (Suc m') r st"
    using "9.IH"(1) "9.prems" m by blast
  let ?L = "filter (advanced st) (run fl (Suc n) r st)"
  have "\<forall>st1 \<in> set ?L. length (rest st1) < n \<and> length (rest st1) < m'"
  proof
    fix st1 assume "st1 \<in> set ?L"
    then have "reaches st st1" "advanced st st1" using run_reaches(1) by auto
    then have "length (rest st1) < length (rest st)" by (rule advanced_shorter)
    then show "length (rest st1) < n \<and> length (rest st1) < m'" using "9.prems" m by simp
  qed
  then have "runs fl n (Star r) ?L = runs fl m' (Star r) ?L" using "9.IH"(2) by blast
  then show ?case using a m by simp
next
  case (10 fl r st)
  then show ?case by simp
next
  case (11 fl n r st)
  from "11.prems" obtain m' where m: "m = Suc m'" by (cases m) auto
  have a: "run fl (Suc n) r st = run fl (Suc m') r st"
    using "11.IH"(1) "11.prems" m by blast
  let ?L = "filter (advanced st) (run fl (Suc n) r st)"
  have "\<forall>st1 \<in> set ?L. length (rest st1) < n \<and> length (rest st1) < m'"
  proof
    fix st1 assume "st1 \<in> set ?L"
    then have "reaches st st1" "advanced st st1" using run_reaches(1) by auto
    then have "length (rest st1) < length (rest st)" by (rule advanced_shorter)
    then show "length (rest st1) < n \<and> length (rest st1) < m'" using "11.prems" m by simp
  qed
  then have "runs fl n (LazyStar r) ?L = runs fl m' (LazyStar r) ?L" using "11.IH"(2) by blast
  then show ?case using a m by simp
next
  case (12 fl n k r st)
  then show ?case by (metis run.simps(12))
next
  case (15 fl n r st)
  then show ?case by (metis run.simps(15))
next
  case (17 fl n r st sts)
  then show ?case by (metis list.set_intros(1,2) runs.simps(2))
qed simp_all


text \<open>The same holds of the searches that call the matcher.\<close>

lemma execFrom_fuel:
  "length s < n \<Longrightarrow> length s < m \<Longrightarrow> execFrom fl r n q pv s = execFrom fl r m q pv s"
proof (induction s arbitrary: q pv)
  case Nil
  then show ?case using run_fuel(1)[of "MState q pv [] []" n m fl r] by simp
next
  case (Cons x xs)
  have "run fl n r (MState q pv (x # xs) []) = run fl m r (MState q pv (x # xs) [])"
    using Cons.prems run_fuel(1)[of "MState q pv (x # xs) []" n m fl r] by simp
  moreover have "execFrom fl r n (Suc q) (Some x) xs = execFrom fl r m (Suc q) (Some x) xs"
    using Cons by simp
  ultimately show ?case by (simp split: list.splits)
qed

lemma splitLoop_fuel:
  "length s < n \<Longrightarrow> length s < m \<Longrightarrow>
   splitLoop fl r n piece skip q pv s = splitLoop fl r m piece skip q pv s"
proof (induction s arbitrary: piece skip q pv)
  case Nil
  then show ?case by simp
next
  case (Cons x xs)
  have "run fl n r (MState q pv (x # xs) []) = run fl m r (MState q pv (x # xs) [])"
    using Cons.prems run_fuel(1)[of "MState q pv (x # xs) []" n m fl r] by simp
  moreover have "\<And>piece skip. splitLoop fl r n piece skip (Suc q) (Some x) xs
      = splitLoop fl r m piece skip (Suc q) (Some x) xs"
    using Cons by simp
  ultimately show ?case by (simp split: list.splits)
qed

lemma replaceLoop_fuel:
  "length s < n \<Longrightarrow> length s < m \<Longrightarrow>
   replaceLoop fl r n f skip q pv s = replaceLoop fl r m f skip q pv s"
proof (induction s arbitrary: skip q pv)
  case Nil
  then show ?case using run_fuel(1)[of "MState q pv [] []" n m fl r] by simp
next
  case (Cons x xs)
  have "run fl n r (MState q pv (x # xs) []) = run fl m r (MState q pv (x # xs) [])"
    using Cons.prems run_fuel(1)[of "MState q pv (x # xs) []" n m fl r] by simp
  moreover have "\<And>skip. replaceLoop fl r n f skip (Suc q) (Some x) xs
      = replaceLoop fl r m f skip (Suc q) (Some x) xs"
    using Cons by simp
  ultimately show ?case by (simp split: list.splits)
qed

section \<open>Scoring-based routing: the default and the hybrid example\<close>

lemma hello_scores:
  "calculateKeywordScore (toLowerCaseASCII hello_query) realTimeKeywords = 0"
  "calculateKeywordScore (toLowerCaseASCII hello_query) analyticalKeywords = 0"
  by code_simp+

lemma hello_context: "analyzeQueryContext hello_query = None"
  by code_simp

text \<open>
  Claim C5, as stated, fails. The query \<open>hello\<close> scores 0 on both keyword sets and matches
  neither contextual pattern, and the combiner does not answer with the analytical model.
\<close>

theorem default_not_analytical_counterexample:
  "calculateKeywordScore (toLowerCaseASCII hello_query) realTimeKeywords \<le> SINGLE_MODEL_THRESHOLD
   \<and> calculateKeywordScore (toLowerCaseASCII hello_query) analyticalKeywords \<le> SINGLE_MODEL_THRESHOLD
   \<and> \<not> (calculateKeywordScore (toLowerCaseASCII hello_query) realTimeKeywords > HYBRID_THRESHOLD
        \<and> calculateKeywordScore (toLowerCaseASCII hello_query) analyticalKeywords > HYBRID_THRESHOLD)
   \<and> analyzeQueryContext hello_query = None
   \<and> d_model (determineModelForQuery toLowerCaseASCII hello_query) \<noteq> js ''claude''"
proof -
  have "d_model (determineModelForQuery toLowerCaseASCII hello_query) \<noteq> js ''claude''"
    by code_simp
  then show ?thesis
    by (simp add: hello_scores hello_context SINGLE_MODEL_THRESHOLD_def HYBRID_THRESHOLD_def)
qed

text \<open>
  Claim C5, amended. For every query whose two scores are at most 0.5, are not both above
  0.3, and for which neither contextual pattern matches, the combiner returns \<open>hybrid\<close>
  with the reasoning \<open>Complex query requiring comprehensive response\<close> and both scores:
  the default of the scoring entry point is hybrid.
\<close>

theorem default_is_hybrid:
  assumes "calculateKeywordScore (lc query) realTimeKeywords \<le> SINGLE_MODEL_THRESHOLD"
    and "calculateKeywordScore (lc query) analyticalKeywords \<le> SINGLE_MODEL_THRESHOLD"
    and "\<not> (calculateKeywordScore (lc query) realTimeKeywords > HYBRID_THRESHOLD
            \<and> calculateKeywordScore (lc query) analyticalKeywords > HYBRID_THRESHOLD)"
    and "analyzeQueryContext query = None"
  shows "determineModelForQuery lc query =
           \<lparr>d_model = js ''hybrid'',
            d_reasoning = js ''Complex query requiring comprehensive response'',
            d_scores = Some (calculateKeywordScore (lc query) realTimeKeywords,
                             calculateKeywordScore (lc query) analyticalKeywords)\<rparr>"
proof -
  have rt: "\<not> calculateKeywordScore (lc query) realTimeKeywords > SINGLE_MODEL_THRESHOLD"
    using assms(1) by simp
  have an: "\<not> calculateKeywordScore (lc query) analyticalKeywords > SINGLE_MODEL_THRESHOLD"
    using assms(2) by simp
  show ?thesis
    unfolding determineModelForQuery_def Let_def
    using rt an assms(3) assms(4) by auto
qed

theorem default_is_hybrid_witness:
  "calculateKeywordScore (toLowerCaseASCII hello_query) realTimeKeywords \<le> SINGLE_MODEL_THRESHOLD
   \<and> calculateKeywordScore (toLowerCaseASCII hello_query) analyticalKeywords \<le> SINGLE_MODEL_THRESHOLD
   \<and> analyzeQueryContext hello_query = None
   \<and> determineModelForQuery toLowerCaseASCII hello_query =
         \<lparr>d_model = js ''hybrid'',
          d_reasoning = js ''Complex query requiring comprehensive response'',
          d_scores = Some (0, 0)\<rparr>"
proof -
  have h1: "calculateKeywordScore (toLowerCaseASCII hello_query) realTimeKeywords \<le> SINGLE_MODEL_THRESHOLD"
    by (simp add: hello_scores SINGLE_MODEL_THRESHOLD_def)
  have h2: "calculateKeywordScore (toLowerCaseASCII hello_query) analyticalKeywords \<le> SINGLE_MODEL_THRESHOLD"
    by (simp add: hello_scores SINGLE_MODEL_THRESHOLD_def)
  have h3: "\<not> (calculateKeywordScore (toLowerCaseASCII hello_query) realTimeKeywords > HYBRID_THRESHOLD
            \<and> calculateKeywordScore (toLowerCaseASCII hello_query) analyticalKeywords > HYBRID_THRESHOLD)"
    by (simp add: hello_scores HYBRID_THRESHOLD_def)
  show ?thesis
    using default_is_hybrid [of toLowerCaseASCII hello_query, OF h1 h2 h3 hello_context] h1 h2 hello_context
    by (simp add: hello_scores)
qed

lemma weather_scores:
  "calculateKeywordScore (toLowerCaseASCII weather_query) realTimeKeywords = 3 / 13"
  "calculateKeywordScore (toLowerCaseASCII weather_query) analyticalKeywords = 3 / 13"
  by code_simp+

lemma weather_location: "test flags_i locationPattern weather_query"
  by code_simp

text \<open>
  Claim C6, as stated, fails. The example query has thirteen words and three keywords of
  each set, so both scores are \<open>3/13\<close>, below the hybrid threshold, and the decision is
  not \<open>hybrid\<close>.
\<close>

theorem weather_query_not_hybrid_counterexample:
  "calculateKeywordScore (toLowerCaseASCII weather_query) realTimeKeywords < HYBRID_THRESHOLD
   \<and> calculateKeywordScore (toLowerCaseASCII weather_query) analyticalKeywords < HYBRID_THRESHOLD
   \<and> d_model (determineModelForQuery toLowerCaseASCII weather_query) \<noteq> js ''hybrid''"
proof -
  have "d_model (determineModelForQuery toLowerCaseASCII weather_query) \<noteq> js ''hybrid''"
    by code_simp
  then show ?thesis
    by (simp add: weather_scores HYBRID_THRESHOLD_def)
qed

text \<open>
  Claim C6, amended. For the example query both keyword scores are \<open>3/13\<close>; neither the
  hybrid rule nor a single-model rule fires; the location pattern matches \<open>near Boston\<close>
  and the combiner decides \<open>perplexity\<close>, as a location-based query.
\<close>

theorem weather_query_is_location_based:
  "calculateKeywordScore (toLowerCaseASCII weather_query) realTimeKeywords = 3 / 13
   \<and> calculateKeywordScore (toLowerCaseASCII weather_query) analyticalKeywords = 3 / 13
   \<and> determineModelForQuery toLowerCaseASCII weather_query =
         \<lparr>d_model = js ''perplexity'',
          d_reasoning = js ''Location-based query requiring current data'',
          d_scores = None\<rparr>"
proof -
  have "analyzeQueryContext weather_query =
          Some \<lparr>d_model = js ''perplexity'',
                d_reasoning = js ''Location-based query requiring current data'',
                d_scores = None\<rparr>"
    by (simp add: analyzeQueryContext_def weather_location)
  then show ?thesis
    unfolding determineModelForQuery_def Let_def
    by (simp add: weather_scores HYBRID_THRESHOLD_def SINGLE_MODEL_THRESHOLD_def)
qed

section \<open>Retries and backoff\<close>

lemma sendMessageWithRetry_loop_all_fail:
  assumes "prompt \<noteq> []" and "\<And>k. executeRequest (port k) = Inl (err k)" and "c < maxRetries"
  shows "sendMessageWithRetry_loop port prompt maxRetries c =
           (concat (map (\<lambda>k. [Request (k + 1), Sleep (min (1000 * 2 ^ (k + 1)) 8000)]) [c..<maxRetries - 1])
              @ [Request maxRetries],
            Some (exhausted_apology (err maxRetries)))"
  using assms(3)
proof (induction "maxRetries - c" arbitrary: c)
  case 0
  then show ?case by simp
next
  case (Suc d)
  have att: "attemptRequest port prompt c = ([Request (c + 1)], Inl (err (c + 1)))"
    using assms(1,2) by (simp add: attemptRequest_def)
  show ?case
  proof (cases "c + 1 = maxRetries")
    case True
    then show ?thesis
      using Suc.prems att by (subst sendMessageWithRetry_loop.simps) auto
  next
    case False
    then have lt: "c + 1 < maxRetries" using Suc.prems by simp
    have d: "d = maxRetries - (c + 1)" using Suc.hyps(2) by simp
    have up: "[c..<maxRetries - 1] = c # [c + 1..<maxRetries - 1]"
      using lt by (simp add: upt_conv_Cons)
    show ?thesis
      using Suc.hyps(1)[OF d lt] False Suc.prems att up
      by (subst sendMessageWithRetry_loop.simps) simp
  qed
qed

lemma delays_append: "delays (xs @ ys) = delays xs @ delays ys"
  by (induction xs rule: delays.induct) auto

lemma attempts_append: "attempts (xs @ ys) = attempts xs + attempts ys"
  by (induction xs rule: attempts.induct) auto

lemma delays_rounds:
  "delays (concat (map (\<lambda>k. [Request (g k), Sleep (f k)]) ks)) = map f ks"
  by (induction ks) auto

lemma attempts_rounds:
  "attempts (concat (map (\<lambda>k. [Request (g k), Sleep (f k)]) ks)) = length ks"
  by (induction ks) auto

text \<open>
  When every attempt fails, \<open>sendMessageWithRetry\<close> posts \<open>maxRetries\<close> requests and
  returns the apology as a successful response; its delays start at 2000 ms, the counter
  being incremented before the delay is computed.
\<close>

lemma sendMessageWithRetry_all_fail:
  assumes "prompt \<noteq> []" and "\<And>k. executeRequest (port k) = Inl (err k)" and "0 < maxRetries"
  shows "attempts (fst (sendMessageWithRetry port prompt maxRetries)) = maxRetries"
    and "delays (fst (sendMessageWithRetry port prompt maxRetries)) =
           map (\<lambda>i. min (1000 * 2 ^ (i + 1)) 8000) [0..<maxRetries - 1]"
    and "snd (sendMessageWithRetry port prompt maxRetries) = Some (exhausted_apology (err maxRetries))"
  using assms(3)
  by (simp_all add: sendMessageWithRetry_def sendMessageWithRetry_loop_all_fail[OF assms]
        delays_append attempts_append delays_rounds attempts_rounds)


lemma handlePerplexityRequest_loop_all_fail:
  assumes "prompt \<noteq> []" and "\<And>k. snd (perplexityAttempt fetch prompt k) = Inl (err k)"
    and "i < retryCount"
  shows "handlePerplexityRequest_loop fetch prompt retryCount i =
           (concat (map (\<lambda>k. [Fetch k, Sleep (min (1000 * 2 ^ k) 8000)]) [i..<retryCount - 1])
              @ [Fetch (retryCount - 1)],
            Some perplexity_fallback)"
  using assms(3)
proof (induction "retryCount - i" arbitrary: i)
  case 0
  then show ?case by simp
next
  case (Suc d)
  have att: "perplexityAttempt fetch prompt i = ([Fetch i], Inl (err i))"
    using assms(1) assms(2)[of i] by (simp add: perplexityAttempt_def)
  show ?case
  proof (cases "i = retryCount - 1")
    case True
    then show ?thesis
      using Suc.prems att by (subst handlePerplexityRequest_loop.simps) auto
  next
    case False
    then have lt: "i + 1 < retryCount" using Suc.prems by simp
    have d: "d = retryCount - (i + 1)" using Suc.hyps(2) by simp
    have up: "[i..<retryCount - 1] = i # [i + 1..<retryCount - 1]"
      using lt by (simp add: upt_conv_Cons)
    show ?thesis
      using Suc.hyps(1)[OF d lt] False Suc.prems att up
      by (subst handlePerplexityRequest_loop.simps) simp
  qed
qed

lemma delays_fetch_rounds:
  "delays (concat (map (\<lambda>k. [Fetch (g k), Sleep (f k)]) ks)) = map f ks"
  by (induction ks) auto

lemma attempts_fetch_rounds:
  "attempts (concat (map (\<lambda>k. [Fetch (g k), Sleep (f k)]) ks)) = length ks"
  by (induction ks) auto

text \<open>
  The sibling loop of the worker, \<open>handlePerplexityRequest\<close>, computes the delay from the
  loop index before it is incremented: its delays start at 1000 ms.
\<close>

lemma handlePerplexityRequest_all_fail:
  assumes "prompt \<noteq> []" and "\<And>k. snd (perplexityAttempt fetch prompt k) = Inl (err k)"
    and "0 < retryCount"
  shows "attempts (fst (handlePerplexityRequest fetch prompt retryCount)) = retryCount"
    and "delays (fst (handlePerplexityRequest fetch prompt retryCount)) =
           map (\<lambda>i. min (1000 * 2 ^ i) 8000) [0..<retryCount - 1]"
    and "snd (handlePerplexityRequest fetch prompt retryCount) = Some perplexity_fallback"
  using assms(3)
  by (simp_all add: handlePerplexityRequest_def handlePerplexityRequest_loop_all_fail[OF assms]
        delays_append attempts_append delays_fetch_rounds attempts_fetch_rounds)

text \<open>
  Claim C2 at a failing input: three attempts that all time out. The page-side executor
  makes its three attempts and returns the apology as a successful response, but it sleeps
  2000 ms and 4000 ms, not 1000 ms and 2000 ms.
\<close>

theorem sendMessageWithRetry_backoff_starts_at_2000:
  "sendMessageWithRetry silent_port (js ''hi'') 3 =
     ([Request 1, Sleep 2000, Request 2, Sleep 4000, Request 3],
      Some (exhausted_apology (js ''Request timeout'')))
   \<and> delays (fst (sendMessageWithRetry silent_port (js ''hi'') 3)) \<noteq>
       map (\<lambda>i. min (1000 * 2 ^ i) 8000) [0..<2]"
  by code_simp

lemma handleClaudeRequest_loop_all_fail:
  assumes "\<And>k. claudeAttempt fetch k = Inl (err k)" and "i < retryCount"
  shows "handleClaudeRequest_loop fetch retryCount i =
           (concat (map (\<lambda>k. [Fetch k, Sleep (min (2 ^ k * 1000) 8000)]) [i..<retryCount - 1])
              @ [Fetch (retryCount - 1)],
            Thrown (js ''Claude API Error: '' @ err (retryCount - 1)))"
  using assms(2)
proof (induction "retryCount - i" arbitrary: i)
  case 0
  then show ?case by simp
next
  case (Suc d)
  show ?case
  proof (cases "i = retryCount - 1")
    case True
    then show ?thesis
      using Suc.prems assms(1) by (subst handleClaudeRequest_loop.simps) auto
  next
    case False
    then have lt: "i + 1 < retryCount" using Suc.prems by simp
    have d: "d = retryCount - (i + 1)" using Suc.hyps(2) by simp
    have up: "[i..<retryCount - 1] = i # [i + 1..<retryCount - 1]"
      using lt by (simp add: upt_conv_Cons)
    show ?thesis
      using Suc.hyps(1)[OF d lt] False Suc.prems assms(1) up
      by (subst handleClaudeRequest_loop.simps) simp
  qed
qed

text \<open>
  Claim C7, as stated, fails. With the default of two attempts and a provider that answers
  401 each time, the worker calls the provider, waits 1000 ms and calls it again; what it
  delivers is the error every failure ends in, with the status and the raw body in it.
\<close>

theorem auth_error_is_retried_counterexample:
  "handleClaudeRequest unauthorized 2 =
     ([Fetch 0, Sleep 1000, Fetch 1],
      Thrown (js ''Claude API Error: Claude API Error (401): invalid x-api-key''))
   \<and> attempts (fst (handleClaudeRequest unauthorized 2)) \<noteq> 1"
  by code_simp

text \<open>
  Claim C7, amended. A call that the provider answers with 401 or 403 on every attempt is
  handled like any other failure. The retrying worker makes all \<open>retryCount\<close> attempts
  with the delays \<open>min(2^i * 1000, 8000)\<close> between them and then throws
  \<open>Claude API Error: Claude API Error (<status>): <body>\<close>. The worker without
  retries makes its one call and answers with the failure response of every error, whose
  text is \<open>I apologize, but I couldn't process your request: \<close> followed by the same
  message.
\<close>

theorem auth_error_handled_like_any_failure:
  assumes "status = 401 \<or> status = 403"
    and "\<And>i. fetch i = Http status errorText answer"
    and "0 < retryCount"
    and "key \<noteq> []"
  shows "attempts (fst (handleClaudeRequest fetch retryCount)) = retryCount
       \<and> delays (fst (handleClaudeRequest fetch retryCount)) =
           map (\<lambda>i. min (2 ^ i * 1000) 8000) [0..<retryCount - 1]
       \<and> snd (handleClaudeRequest fetch retryCount) =
           Thrown (js ''Claude API Error: '' @ js ''Claude API Error ('' @ decimal status @ js ''): '' @ errorText)
       \<and> handleClaudeRequest_single key (fetch 0) =
           ([Fetch 0],
            \<lparr>success = False,
             error = Some (js ''Claude API Error: '' @ js ''Claude API Error ('' @ decimal status @ js ''): '' @ errorText),
             content_text = Some (js ''I apologize, but I couldn't process your request: ''
                                  @ js ''Claude API Error ('' @ decimal status @ js ''): '' @ errorText)\<rparr>)"
proof -
  have nok: "\<not> ok status" using assms(1) by (auto simp: ok_def)
  have att: "\<And>k. claudeAttempt fetch k = Inl (js ''Claude API Error ('' @ decimal status @ js ''): '' @ errorText)"
    using nok assms(2) by (simp add: claudeAttempt_def)
  have loop: "handleClaudeRequest fetch retryCount =
      (concat (map (\<lambda>k. [Fetch k, Sleep (min (2 ^ k * 1000) 8000)]) [0..<retryCount - 1])
         @ [Fetch (retryCount - 1)],
       Thrown (js ''Claude API Error: '' @ js ''Claude API Error ('' @ decimal status @ js ''): '' @ errorText))"
    unfolding handleClaudeRequest_def
    using handleClaudeRequest_loop_all_fail[of fetch "\<lambda>k. js ''Claude API Error ('' @ decimal status @ js ''): '' @ errorText" 0 retryCount, OF att assms(3)]
    by simp
  have single: "handleClaudeRequest_single key (fetch 0) =
           ([Fetch 0],
            \<lparr>success = False,
             error = Some (js ''Claude API Error: '' @ js ''Claude API Error ('' @ decimal status @ js ''): '' @ errorText),
             content_text = Some (js ''I apologize, but I couldn't process your request: ''
                                  @ js ''Claude API Error ('' @ decimal status @ js ''): '' @ errorText)\<rparr>)"
    using nok assms(2)[of 0] assms(4) by (simp add: handleClaudeRequest_single_def Let_def)
  show ?thesis
    using assms(3) single
    by (simp add: loop delays_append attempts_append delays_fetch_rounds attempts_fetch_rounds)
qed

theorem auth_error_handled_like_any_failure_witness:
  "(401 = (401::nat) \<or> 401 = (403::nat))
   \<and> attempts (fst (handleClaudeRequest unauthorized 2)) = 2
   \<and> delays (fst (handleClaudeRequest unauthorized 2)) = [1000]
   \<and> snd (handleClaudeRequest unauthorized 2) =
         Thrown (js ''Claude API Error: Claude API Error (401): invalid x-api-key'')
   \<and> snd (handleClaudeRequest_single (js ''sk-ant-k'') (unauthorized 0)) =
         \<lparr>success = False,
          error = Some (js ''Claude API Error: Claude API Error (401): invalid x-api-key''),
          content_text = Some (js ''I apologize, but I couldn't process your request: Claude API Error (401): invalid x-api-key'')\<rparr>"
proof -
  have h1: "(401::nat) = 401 \<or> (401::nat) = 403" by simp
  have h2: "\<And>i. unauthorized i = Http 401 (js ''invalid x-api-key'') None"
    by (simp add: unauthorized_def)
  have h3: "0 < (2::nat)" by simp
  have h4: "js ''sk-ant-k'' \<noteq> []" by (simp add: js_def)
  have d: "decimal 401 = js ''401''" by code_simp
  have u: "map (\<lambda>i. min (2 ^ i * 1000) 8000) [0..<2 - 1] = [1000::nat]" by code_simp
  show ?thesis
    using auth_error_handled_like_any_failure [where status = 401 and fetch = unauthorized
        and retryCount = 2 and key = "js ''sk-ant-k''", OF h1 h2 h3 h4] u
    by (simp add: d js_def)
qed

section \<open>Usage meter: serialized increments\<close>








lemma next_callback_released: "next_callback ps = Some k \<Longrightarrow> released k ps"
proof -
  assume nc: "next_callback ps = Some k"
  then have some: "\<not> list_all isResolved ps" and k: "k = length (takeWhile isResolved ps)"
    by (auto simp: next_callback_def split: if_splits)
  have "takeWhile isResolved ps \<noteq> ps"
    using some by (simp add: list_all_iff)
  then have lt: "k < length ps"
    using k length_takeWhile_le[of isResolved ps] takeWhile_eq_take[of isResolved ps]
    by (cases "k = length ps") auto
  then have un: "\<not> isResolved (ps ! k)"
    using k nth_length_takeWhile[of isResolved ps] by simp
  have "list_all isResolved (take k ps)"
    using k takeWhile_eq_take[of isResolved ps] set_takeWhileD[of _ isResolved ps]
    by (auto simp: list_all_iff)
  then show ?thesis using lt un by (simp add: released_def)
qed


subsection \<open>Every chain keeps its line\<close>











subsection \<open>Every callback runs to its end\<close>








subsection \<open>One object, no failing call\<close>


















lemma broadcastToAllTargets_returns:
  "broadcastToAllTargets popupRejects tabsReject usageInfo = Returned ()"
  by (simp add: broadcastToAllTargets_def)

text \<open>
  Claim C10. \<open>incrementUsage\<close> never rejects: whatever the four awaited calls do, its
  promise is fulfilled with a record. If any of them throws, the record is the fixed
  \<open>{currentUsage: 0, remaining: MAX_FREE_USES, exceeded: false}\<close>, which is also what
  \<open>resetUsage\<close> returns and what an installation at usage zero gets from
  \<open>calculateUsageInfo\<close>; when the throwing call is the broadcast, the counter has already
  been written, so the record is returned whatever the stored counter is.
\<close>

theorem incrementUsage_never_rejects:
  "(\<exists>usageInfo. fst (incrementUsage t e1 e2 e3 e4 st) = Fulfilled usageInfo)
   \<and> (throws e1 \<or> throws e2 \<or> throws e3 \<or> throws e4 \<longrightarrow>
        fst (incrementUsage t e1 e2 e3 e4 st) = Fulfilled (failure_record t))
   \<and> failure_record new_UsageTracker = \<lparr>currentUsage = 0, remaining = 25, exceeded = False\<rparr>
   \<and> failure_record t = fst (resetUsage t now st)
   \<and> (0 < MAX_FREE_USES t \<longrightarrow> failure_record t = calculateUsageInfo t 0)
   \<and> (userId st = Some u \<and> u \<noteq> [] \<and> \<not> throws e1 \<and> \<not> throws e2 \<and> \<not> throws e3 \<and> throws e4 \<longrightarrow>
        persisted_count t u (snd (incrementUsage t e1 e2 e3 e4 st)) = Suc (persisted_count t u st))"
proof -
  have a: "\<exists>usageInfo. fst (incrementUsage t e1 e2 e3 e4 st) = Fulfilled usageInfo"
    by (cases "throws e1"; cases "throws e2"; cases "throws e3"; cases "throws e4")
       (simp_all add: incrementUsage_def advance_def Let_def split_beta)
  have b: "throws e1 \<or> throws e2 \<or> throws e3 \<or> throws e4 \<longrightarrow>
        fst (incrementUsage t e1 e2 e3 e4 st) = Fulfilled (failure_record t)"
    by (cases "throws e1"; cases "throws e2"; cases "throws e3"; cases "throws e4")
       (simp_all add: incrementUsage_def advance_def Let_def split_beta)
  have c: "failure_record new_UsageTracker = \<lparr>currentUsage = 0, remaining = 25, exceeded = False\<rparr>"
    by (simp add: failure_record_def new_UsageTracker_def)
  have d: "failure_record t = fst (resetUsage t now st)"
    by (simp add: failure_record_def resetUsage_def split_beta)
  have e: "0 < MAX_FREE_USES t \<longrightarrow> failure_record t = calculateUsageInfo t 0"
    by (simp add: failure_record_def calculateUsageInfo_def)
  have f: "userId st = Some u \<and> u \<noteq> [] \<and> \<not> throws e1 \<and> \<not> throws e2 \<and> \<not> throws e3 \<and> throws e4 \<longrightarrow>
        persisted_count t u (snd (incrementUsage t e1 e2 e3 e4 st)) = Suc (persisted_count t u st)"
    by (simp add: incrementUsage_def advance_def Let_def split_beta getUserId_def
          getUsageCount_def persisted_count_def)
  from a b c d e f show ?thesis by blast
qed

theorem incrementUsage_never_rejects_witness:
  "throws broken
   \<and> fst (incrementUsage new_UsageTracker fine fine fine broken installed) =
       Fulfilled \<lparr>currentUsage = 0, remaining = 25, exceeded = False\<rparr>
   \<and> persisted_count new_UsageTracker (js ''user_17'')
         (snd (incrementUsage new_UsageTracker fine fine fine broken installed)) = 1
   \<and> fst (incrementUsage new_UsageTracker broken fine fine fine installed) =
       Fulfilled (calculateUsageInfo new_UsageTracker 0)"
proof -
  have h: "throws broken" by (simp add: broken_def)
  have p: "persisted_count new_UsageTracker (js ''user_17'')
         (snd (incrementUsage new_UsageTracker fine fine fine broken installed)) = 1"
    by code_simp
  have z: "calculateUsageInfo new_UsageTracker 0 = \<lparr>currentUsage = 0, remaining = 25, exceeded = False\<rparr>"
    by code_simp
  show ?thesis
    using incrementUsage_never_rejects [of new_UsageTracker fine fine fine broken installed]
      incrementUsage_never_rejects [of new_UsageTracker broken fine fine fine installed] h p z
    by simp
qed

section \<open>Hybrid queries: when the merge is skipped\<close>

lemma apology_is_fallback_text: "content_text perplexity_fallback = Some apology_text"
  by (simp add: perplexity_fallback_def apology_text_def)

lemma apology_nonempty: "apology_text \<noteq> []"
  by (simp add: apology_text_def js_def)

text \<open>
  Claim C3, as stated, fails. The real-time leg comes back with the apology of the
  worker; \<open>queryHybrid\<close> does not label the answer a fallback but asks the analytical
  model to format the apology, and \<open>executeQuery\<close>, for a query that is decided hybrid,
  asks it to merge the apology with the analysis.
\<close>

theorem hybrid_merges_the_apology_counterexample:
  "queryHybrid apologizing analysing (js ''hi'') False =
     ([AskPerplexity (perplexityPrompt (js ''hi'')) False,
       AskClaude (formattingPrompt (js ''hi'') apology_text) False],
      Returned \<lparr>h_text = Some (js ''analysis''), h_model = js ''hybrid (Perplexity + Claude)'',
                originalData = Some apology_text\<rparr>)
   \<and> executeQuery toLowerCaseASCII apologizing analysing hello_query False =
     ([AskPerplexity hello_query False, AskClaude hello_query False,
       AskClaude (enhancementPrompt (Some apology_text) (Some (js ''analysis''))) False],
      Returned \<lparr>e_text = Some (js ''analysis''), e_model = js ''hybrid''\<rparr>)"
proof -
  have d: "d_model (determineModelForQuery toLowerCaseASCII hello_query) = js ''hybrid''"
    by code_simp
  show ?thesis
    using apology_nonempty
    by (simp add: queryHybrid_def executeQuery_def processHybridResponse_def d
          apologizing_def analysing_def Let_def)
qed

text \<open>
  Claim C3, amended. \<open>queryHybrid\<close> skips the formatting call, and labels its answer
  \<open>Claude (fallback)\<close>, exactly when the real-time leg returns no text at all. When the
  real-time leg returns any text, the apology included, the analytical model is called
  with the formatting prompt around that text, and its answer is returned under the
  label \<open>hybrid (Perplexity + Claude)\<close>. In \<open>executeQuery\<close>, when the decision is hybrid
  and both legs return, the merge call is made whatever the two texts are.
\<close>

theorem hybrid_skips_merge_only_without_text:
  assumes "queryPerplexity (perplexityPrompt prompt) hasContext = Returned r"
  shows "(answer_text r = Some rawData \<and> rawData \<noteq> [] \<longrightarrow>
            queryHybrid queryPerplexity queryClaude prompt hasContext =
              ([AskPerplexity (perplexityPrompt prompt) hasContext,
                AskClaude (formattingPrompt prompt rawData) False],
               (case queryClaude (formattingPrompt prompt rawData) False of
                  Thrown message \<Rightarrow> Thrown message
                | Returned claudeResponse \<Rightarrow>
                    Returned \<lparr>h_text = answer_text claudeResponse,
                              h_model = js ''hybrid (Perplexity + Claude)'',
                              originalData = Some rawData\<rparr>)))
       \<and> (answer_text r = None \<or> answer_text r = Some [] \<longrightarrow>
            fst (queryHybrid queryPerplexity queryClaude prompt hasContext) =
              [AskPerplexity (perplexityPrompt prompt) hasContext, AskClaude prompt hasContext]
            \<and> (\<exists>a. snd (queryHybrid queryPerplexity queryClaude prompt hasContext) = Returned a
                    \<and> h_model a = js ''Claude (fallback)''))
       \<and> (d_model (determineModelForQuery lc query) = js ''hybrid''
            \<and> realtime query hasContext = Returned p \<and> queryClaude query hasContext = Returned c \<longrightarrow>
            fst (executeQuery lc realtime queryClaude query hasContext) =
              [AskPerplexity query hasContext, AskClaude query hasContext,
               AskClaude (enhancementPrompt (answer_text p) (answer_text c)) False])"
proof -
  have a: "answer_text r = Some rawData \<and> rawData \<noteq> [] \<longrightarrow>
            queryHybrid queryPerplexity queryClaude prompt hasContext =
              ([AskPerplexity (perplexityPrompt prompt) hasContext,
                AskClaude (formattingPrompt prompt rawData) False],
               (case queryClaude (formattingPrompt prompt rawData) False of
                  Thrown message \<Rightarrow> Thrown message
                | Returned claudeResponse \<Rightarrow>
                    Returned \<lparr>h_text = answer_text claudeResponse,
                              h_model = js ''hybrid (Perplexity + Claude)'',
                              originalData = Some rawData\<rparr>))"
    using assms by (simp add: queryHybrid_def split: completion.splits)
  have b: "answer_text r = None \<or> answer_text r = Some [] \<longrightarrow>
            fst (queryHybrid queryPerplexity queryClaude prompt hasContext) =
              [AskPerplexity (perplexityPrompt prompt) hasContext, AskClaude prompt hasContext]
            \<and> (\<exists>a. snd (queryHybrid queryPerplexity queryClaude prompt hasContext) = Returned a
                    \<and> h_model a = js ''Claude (fallback)'')"
    using assms by (auto simp: queryHybrid_def)
  have c: "d_model (determineModelForQuery lc query) = js ''hybrid''
            \<and> realtime query hasContext = Returned p \<and> queryClaude query hasContext = Returned c \<longrightarrow>
            fst (executeQuery lc realtime queryClaude query hasContext) =
              [AskPerplexity query hasContext, AskClaude query hasContext,
               AskClaude (enhancementPrompt (answer_text p) (answer_text c)) False]"
    by (simp add: executeQuery_def Let_def split: completion.splits)
  from a b c show ?thesis by blast
qed

theorem hybrid_skips_merge_only_without_text_witness:
  "apologizing (perplexityPrompt (js ''hi'')) False =
     Returned \<lparr>answer_text = Some apology_text, answer_model = js ''perplexity''\<rparr>
   \<and> apology_text \<noteq> []
   \<and> queryHybrid apologizing analysing (js ''hi'') False =
       ([AskPerplexity (perplexityPrompt (js ''hi'')) False,
         AskClaude (formattingPrompt (js ''hi'') apology_text) False],
        Returned \<lparr>h_text = Some (js ''analysis''), h_model = js ''hybrid (Perplexity + Claude)'',
                  originalData = Some apology_text\<rparr>)"
proof -
  have h: "apologizing (perplexityPrompt (js ''hi'')) False =
     Returned \<lparr>answer_text = Some apology_text, answer_model = js ''perplexity''\<rparr>"
    by (simp add: apologizing_def)
  show ?thesis
    using hybrid_skips_merge_only_without_text [where queryPerplexity = apologizing
        and prompt = "js ''hi''" and hasContext = False and rawData = apology_text
        and queryClaude = analysing, OF h] h apology_nonempty
    by (simp add: analysing_def)
qed

section \<open>Rule-based routing: queries about the page\<close>

lemma refersToPage_isWebpageQuery: "refersToPage lc prompt \<Longrightarrow> isWebpageQuery lc prompt"
  by (auto simp: refersToPage_def isWebpageQuery_def Let_def)

lemma explain_this_rules:
  "refersToPage toLowerCaseASCII explain_this"
  "\<not> isEventLookup explain_this"
  "\<not> hasLocation explain_this"
  "\<not> hasRealTimeKeyword toLowerCaseASCII explain_this"
  "\<not> needsExternalSearch toLowerCaseASCII explain_this None"
  by code_simp+

text \<open>
  Claim C4, as stated, fails. \<open>Explain this\<close> uses an explanation verb together with
  \<open>this\<close>, no earlier rule of the cascade fires for it, and the decision is not the
  analytical model.
\<close>

theorem webpage_query_not_analytical_counterexample:
  "refersToPage toLowerCaseASCII explain_this
   \<and> \<not> isEventLookup explain_this
   \<and> \<not> (hasLocation explain_this \<and> hasEventKeyword toLowerCaseASCII explain_this)
   \<and> \<not> (hasLocation explain_this \<and> hasRealTimeKeyword toLowerCaseASCII explain_this)
   \<and> \<not> (hasRealTimeKeyword toLowerCaseASCII explain_this
          \<and> \<not> startsWith (trim (toLowerCaseASCII explain_this)) (js ''what is'')
          \<and> \<not> startsWith (trim (toLowerCaseASCII explain_this)) (js ''how does''))
   \<and> \<not> needsExternalSearch toLowerCaseASCII explain_this None
   \<and> r_model (aiService_determineModelForQuery toLowerCaseASCII explain_this None) \<noteq> js ''claude''"
proof -
  have "r_model (aiService_determineModelForQuery toLowerCaseASCII explain_this None) \<noteq> js ''claude''"
    by code_simp
  then show ?thesis by (simp add: explain_this_rules)
qed

text \<open>
  Claim C4, amended. For every query that refers to this page, site, company or website,
  or that uses \<open>explain\<close>, \<open>describe\<close> or \<open>tell me about\<close> together with \<open>this\<close>,
  and for which no earlier rule of the cascade fires, the decision is the real-time model
  (\<open>perplexity\<close>) with \<open>useWebpageContext = true\<close> and the reasoning
  \<open>Query is about current webpage\<close>.
\<close>

theorem webpage_query_routes_to_realtime_with_context:
  assumes "refersToPage lc prompt"
    and "\<not> isEventLookup prompt"
    and "\<not> (hasLocation prompt \<and> hasEventKeyword lc prompt)"
    and "\<not> (hasLocation prompt \<and> hasRealTimeKeyword lc prompt)"
    and "\<not> (hasRealTimeKeyword lc prompt
            \<and> \<not> startsWith (trim (lc prompt)) (js ''what is'')
            \<and> \<not> startsWith (trim (lc prompt)) (js ''how does''))"
    and "\<not> needsExternalSearch lc prompt visibleText"
  shows "aiService_determineModelForQuery lc prompt visibleText =
           \<lparr>r_model = js ''perplexity'', useWebpageContext = True,
            r_reasoning = js ''Query is about current webpage''\<rparr>"
proof -
  have w: "isWebpageQuery lc prompt"
    using assms(1) by (rule refersToPage_isWebpageQuery)
  show ?thesis
    unfolding aiService_determineModelForQuery_def Let_def
    using w assms(2-6) by auto
qed

theorem webpage_query_routes_to_realtime_with_context_witness:
  "refersToPage toLowerCaseASCII explain_this
   \<and> \<not> isEventLookup explain_this
   \<and> \<not> hasLocation explain_this
   \<and> \<not> hasRealTimeKeyword toLowerCaseASCII explain_this
   \<and> \<not> needsExternalSearch toLowerCaseASCII explain_this None
   \<and> aiService_determineModelForQuery toLowerCaseASCII explain_this None =
         \<lparr>r_model = js ''perplexity'', useWebpageContext = True,
          r_reasoning = js ''Query is about current webpage''\<rparr>"
proof -
  have h3: "\<not> (hasLocation explain_this \<and> hasEventKeyword toLowerCaseASCII explain_this)"
    by (simp add: explain_this_rules)
  have h4: "\<not> (hasLocation explain_this \<and> hasRealTimeKeyword toLowerCaseASCII explain_this)"
    by (simp add: explain_this_rules)
  have h5: "\<not> (hasRealTimeKeyword toLowerCaseASCII explain_this
            \<and> \<not> startsWith (trim (toLowerCaseASCII explain_this)) (js ''what is'')
            \<and> \<not> startsWith (trim (toLowerCaseASCII explain_this)) (js ''how does''))"
    by (simp add: explain_this_rules)
  show ?thesis
    using webpage_query_routes_to_realtime_with_context
            [where lc = toLowerCaseASCII and prompt = explain_this and visibleText = None,
             OF explain_this_rules(1) explain_this_rules(2) h3 h4 h5 explain_this_rules(5)]
    by (simp add: explain_this_rules)
qed

section \<open>Conversation memory: the bounded log\<close>

lemma last_n_length: "length (last_n n xs) \<le> n"
  by (simp add: last_n_def)

lemma last_n_short: "length xs \<le> n \<Longrightarrow> last_n n xs = xs"
  by (simp add: last_n_def)

lemma last_n_append_last_n: "last_n n (last_n n xs @ ys) = last_n n (xs @ ys)"
  by (cases "length xs \<le> n") (auto simp: last_n_def add.commute)

lemma push_shift: assumes "length xs \<le> n" shows "
  (if length (xs @ [x]) > n then tl (xs @ [x]) else xs @ [x]) = last_n n (xs @ [x])"
proof (cases "length xs = n")
  case True
  then show ?thesis by (cases xs) (auto simp: last_n_def)
next
  case False
  then show ?thesis using assms by (auto simp: last_n_def)
qed

text \<open>The method of the service stores nothing.\<close>

lemma aiService_storeConversation_rejects:
  "aiService_storeConversation now prompt reply model_name stored =
     (Thrown (js ''this.getSessionId is not a function''), stored)"
  by (simp add: aiService_storeConversation_def aiService_getSessionId_def)

lemma getUserId_known: "userId st = Some u \<Longrightarrow> u \<noteq> [] \<Longrightarrow> getUserId now st = (u, st)"
  by (simp add: getUserId_def)

lemma store_step_known:
  assumes "userId st = Some u" "u \<noteq> []" "length (stored_log svc st) \<le> MAX_MESSAGES svc"
  shows "userId (snd (storeConversation svc c st)) = Some u"
    and "stored_log svc (snd (storeConversation svc c st)) =
         last_n (MAX_MESSAGES svc) (stored_log svc st @ (if appends c then [newConversation svc c] else []))"
  using assms push_shift[of "conversations_of st (conversationKey svc u)" "MAX_MESSAGES svc" "newConversation svc c"]
  by (auto simp: storeConversation_def getUserId_known stored_log_def appends_def Let_def conversations_of_def last_n_short)

lemma store_all_known:
  assumes "userId st = Some u" "u \<noteq> []" "length (stored_log svc st) \<le> MAX_MESSAGES svc"
  shows "stored_log svc (storeConversations svc cs st) =
         last_n (MAX_MESSAGES svc) (stored_log svc st @ map (newConversation svc) (filter appends cs))"
  using assms
proof (induction cs arbitrary: st)
  case Nil
  then show ?case by (simp add: last_n_short)
next
  case (Cons c cs)
  let ?st1 = "snd (storeConversation svc c st)"
  have u1: "userId ?st1 = Some u" using store_step_known(1)[OF Cons.prems] .
  have l1: "stored_log svc ?st1 = last_n (MAX_MESSAGES svc) (stored_log svc st @ (if appends c then [newConversation svc c] else []))"
    using store_step_known(2)[OF Cons.prems] .
  have len1: "length (stored_log svc ?st1) \<le> MAX_MESSAGES svc"
    by (simp add: l1 last_n_length)
  show ?case
    using Cons.IH[OF u1 Cons.prems(2) len1]
    by (simp add: l1 last_n_append_last_n)
qed

lemma getUserId_result:
  "\<exists>u. u \<noteq> [] \<and> fst (getUserId now st) = u \<and> userId (snd (getUserId now st)) = Some u
       \<and> memory (snd (getUserId now st)) = memory st"
  by (auto simp: getUserId_def js_def Let_def split: option.splits)

lemma store_step_fresh:
  assumes "memory st = Map.empty" "0 < MAX_MESSAGES svc"
  shows "snd (storeConversation svc c st) = st \<and> \<not> appends c
       \<or> (\<exists>u. u \<noteq> [] \<and> userId (snd (storeConversation svc c st)) = Some u
            \<and> stored_log svc (snd (storeConversation svc c st)) =
                (if appends c then [newConversation svc c] else []))"
proof (cases "call_message c = [] \<or> call_response c = []")
  case True
  then show ?thesis by (auto simp: storeConversation_def appends_def)
next
  case False
  obtain u where u: "u \<noteq> []" "fst (getUserId (idClock c) st) = u"
      "userId (snd (getUserId (idClock c) st)) = Some u"
      "memory (snd (getUserId (idClock c) st)) = memory st"
    using getUserId_result by blast
  have "userId (snd (storeConversation svc c st)) = Some u
        \<and> stored_log svc (snd (storeConversation svc c st)) =
                (if appends c then [newConversation svc c] else [])"
    using False u assms
    by (auto simp: storeConversation_def appends_def stored_log_def conversations_of_def
          Let_def split_beta)
  with u(1) show ?thesis by blast
qed

lemma store_all_fresh:
  assumes "memory st = Map.empty" "0 < MAX_MESSAGES svc"
  shows "stored_log svc (storeConversations svc cs st) =
         last_n (MAX_MESSAGES svc) (map (newConversation svc) (filter appends cs))"
  using assms(1)
proof (induction cs arbitrary: st)
  case Nil
  then show ?case
    by (simp add: stored_log_def conversations_of_def last_n_def split: option.splits)
next
  case (Cons c cs)
  let ?st1 = "snd (storeConversation svc c st)"
  from store_step_fresh[OF Cons.prems assms(2), of c]
  consider (same) "?st1 = st" "\<not> appends c"
    | (known) u where "u \<noteq> []" "userId ?st1 = Some u"
        "stored_log svc ?st1 = (if appends c then [newConversation svc c] else [])"
    by blast
  then show ?case
  proof cases
    case same
    then show ?thesis using Cons.IH[OF Cons.prems] by simp
  next
    case known
    have len: "length (stored_log svc ?st1) \<le> MAX_MESSAGES svc"
      using known(3) assms(2) by simp
    show ?thesis
      using store_all_known[OF known(2) known(1) len, of cs] known(3) by simp
  qed
qed

text \<open>
  Claim C8. The conversation memory is a bounded log. Starting from a store that holds no
  conversations, after any sequence of \<open>storeConversation\<close> calls the stored list is
  the last 50 of the appended entries, in the order of their insertion, so its length
  never exceeds 50; sixty appended entries leave entries 11 to 60.
\<close>

theorem conversation_memory_bounded:
  assumes "memory st = Map.empty"
  shows "stored_log (new_MemoryService t0) (storeConversations (new_MemoryService t0) cs st) =
           last_n 50 (map (newConversation (new_MemoryService t0)) (filter appends cs))
       \<and> length (stored_log (new_MemoryService t0) (storeConversations (new_MemoryService t0) cs st)) \<le> 50"
proof -
  have m: "MAX_MESSAGES (new_MemoryService t0) = 50" by (simp add: new_MemoryService_def)
  have "stored_log (new_MemoryService t0) (storeConversations (new_MemoryService t0) cs st) =
           last_n 50 (map (newConversation (new_MemoryService t0)) (filter appends cs))"
    using store_all_fresh[OF assms, of "new_MemoryService t0" cs] m by simp
  then show ?thesis by (simp add: last_n_length)
qed

lemma sixty_filter: "filter appends sixty_calls = sixty_calls"
  by (simp add: sixty_calls_def appends_def js_def filter_map o_def)

theorem conversation_memory_bounded_witness:
  "memory empty_storage = Map.empty
   \<and> stored_log (new_MemoryService 7) (storeConversations (new_MemoryService 7) sixty_calls empty_storage)
       = drop 10 (map (newConversation (new_MemoryService 7)) sixty_calls)
   \<and> map timestamp (stored_log (new_MemoryService 7) (storeConversations (new_MemoryService 7) sixty_calls empty_storage))
       = map (\<lambda>i. 1000 + i) [10..<60]
   \<and> length (stored_log (new_MemoryService 7) (storeConversations (new_MemoryService 7) sixty_calls empty_storage)) = 50"
proof -
  have e: "memory empty_storage = Map.empty" by (simp add: empty_storage_def)
  have "map timestamp (last_n 50 (map (newConversation (new_MemoryService 7)) sixty_calls)) = map (\<lambda>i. 1000 + i) [10..<60]"
    by (simp add: last_n_def sixty_calls_def newConversation_def drop_map o_def)
  moreover have "length (last_n 50 (map (newConversation (new_MemoryService 7)) sixty_calls)) = 50"
    by (simp add: last_n_def sixty_calls_def)
  moreover have "last_n 50 (map (newConversation (new_MemoryService 7)) sixty_calls)
      = drop 10 (map (newConversation (new_MemoryService 7)) sixty_calls)"
    by (simp add: last_n_def sixty_calls_def)
  ultimately show ?thesis
    using e conversation_memory_bounded[OF e, of 7 sixty_calls] by (simp add: sixty_filter)
qed

section \<open>Response formatter: plain text\<close>

lemma canon_none: "canon flags_none c = c"
  by (simp add: canon_def flags_none_def)

lemma run_two_lits:
  "\<not> startsWith suf [a, b] \<Longrightarrow> run flags_none n (Seq (Lit a) (Lit b)) (MState q pv suf cs) = []"
proof (cases suf)
  case Nil
  then show ?thesis by simp
next
  case (Cons x xs)
  assume ns: "\<not> startsWith suf [a, b]"
  show ?thesis
  proof (cases xs)
    case Nil
    then show ?thesis using Cons by (simp add: canon_none)
  next
    case (Cons y ys)
    then show ?thesis using \<open>suf = x # xs\<close> ns by (auto simp: canon_none)
  qed
qed

lemma run_bold_none:
  assumes "\<not> startsWith suf (js ''**'')"
  shows "run flags_none n boldPattern (MState q pv suf cs) = []"
proof -
  have "\<not> startsWith suf [42, 42]" using assms by (simp add: js_def)
  then have "run flags_none n (Seq (Lit 42) (Lit 42)) (MState q pv suf cs) = []"
    by (rule run_two_lits)
  then show ?thesis by (simp add: boldPattern_def str_def)
qed

lemma replaceLoop_bold_id:
  "\<not> includes_js s (js ''**'') \<Longrightarrow> replaceLoop flags_none boldPattern n f 0 q pv s = s"
proof (induction s arbitrary: q pv)
  case Nil
  have "\<not> startsWith [] (js ''**'')" by (simp add: js_def)
  then show ?case by (simp add: run_bold_none)
next
  case (Cons x xs)
  then have "\<not> startsWith (x # xs) (js ''**'')" "\<not> includes_js xs (js ''**'')" by simp_all
  then show ?case using Cons.IH by (simp add: run_bold_none)
qed

lemma convertBold_id: "\<not> includes_js s (js ''**'') \<Longrightarrow> convertBold s = s"
  by (simp add: convertBold_def replaceAll_def replaceLoop_bold_id)

lemma replaceLoop_same:
  "replaceLoop flags_none (Lit c) n (\<lambda>g. [c]) 0 q pv s = s"
  by (induction s arbitrary: q pv) (auto simp: canon_none)

lemma normalizeBullets_id: "normalizeBullets s = s"
  by (simp add: normalizeBullets_def replaceAll_def replaceLoop_same)

lemma run_sectionBreak_none:
  assumes "\<not> startsWith suf (js ''\<newline>\<newline>'')"
  shows "run flags_none n sectionBreak (MState q pv suf cs) = []"
proof (cases suf)
  case Nil
  then show ?thesis by (simp add: sectionBreak_def Plus_def)
next
  case (Cons x xs)
  have ns: "\<not> startsWith suf [10, 10]" using assms by (simp add: js_def)
  show ?thesis
  proof (cases xs)
    case Nil
    then show ?thesis using Cons by (simp add: sectionBreak_def Plus_def canon_none)
  next
    case (Cons y ys)
    then show ?thesis using \<open>suf = x # xs\<close> ns
      by (auto simp: sectionBreak_def Plus_def canon_none)
  qed
qed

lemma splitLoop_no_break:
  "\<not> includes_js s (js ''\<newline>\<newline>'') \<Longrightarrow>
   splitLoop flags_none sectionBreak n piece 0 q pv s = [rev piece @ s]"
proof (induction s arbitrary: piece q pv)
  case Nil
  then show ?case by simp
next
  case (Cons x xs)
  then have "\<not> startsWith (x # xs) (js ''\<newline>\<newline>'')" "\<not> includes_js xs (js ''\<newline>\<newline>'')"
    by simp_all
  then show ?case using Cons.IH[of "x # piece"] by (simp add: run_sectionBreak_none)
qed

lemma split_no_break:
  assumes "\<not> includes_js s (js ''\<newline>\<newline>'')"
  shows "split_rx flags_none sectionBreak s = [s]"
proof (cases "s = []")
  case True
  have "\<not> startsWith [] (js ''\<newline>\<newline>'')" by (simp add: js_def)
  then show ?thesis using True by (simp add: split_rx_def run_sectionBreak_none)
next
  case False
  then show ?thesis using splitLoop_no_break[OF assms, of _ "[]"] by (simp add: split_rx_def)
qed

lemma run_tag_none:
  assumes "\<not> startsWith suf [60]"
  shows "run flags_none n tagPattern (MState q pv suf cs) = []"
  using assms by (cases suf) (auto simp: tagPattern_def canon_none)

lemma replaceLoop_tag_id:
  "60 \<notin> set s \<Longrightarrow> replaceLoop flags_none tagPattern n f 0 q pv s = s"
proof (induction s arbitrary: q pv)
  case Nil
  then show ?case by (simp add: run_tag_none)
next
  case (Cons x xs)
  then have "\<not> startsWith (x # xs) [60]" by auto
  then show ?case using Cons by (simp add: run_tag_none)
qed

lemma stripTags_id: "60 \<notin> set s \<Longrightarrow> stripTags s = s"
  by (simp add: stripTags_def replaceAll_def replaceLoop_tag_id)


text \<open>
  Claim C9, as stated, fails. The input \<open>a\<newline><br>\<newline>c\<close> holds no blank line, no list
  marker and no bold marker; removing the tag leaves a blank line, and the output is two
  paragraph blocks. The empty input gives the empty string and no block at all.
\<close>

theorem formatter_two_paragraphs_counterexample:
  "\<not> includes_js tag_between_lines (js ''\<newline>\<newline>'')
   \<and> \<not> includes_js tag_between_lines (js ''**'')
   \<and> \<not> startsWith (trim tag_between_lines) (js ''1.'')
   \<and> \<not> test flags_m bulletLine tag_between_lines
   \<and> formatResponse tag_between_lines = js ''<p>a</p>\<newline><p>c</p>''
   \<and> formatResponse [] \<noteq> js ''<p></p>''"
  by code_simp

text \<open>
  Claim C9, amended. The formatter is a function of its input. It returns the empty
  string for the empty input. Otherwise it removes raw HTML tags first, and when the text
  without its tags holds no blank line, no \<open>**\<close>, does not begin with \<open>1.\<close> after
  trimming and has no line that begins with \<open>-\<close> or the bullet, the output is exactly
  one paragraph block around that text, trimmed. An input without \<open><\<close> has no tags to
  remove, so for it the block holds the trimmed input itself.
\<close>

theorem plain_text_is_one_paragraph:
  "formatResponse [] = []
   \<and> (text0 \<noteq> []
        \<and> \<not> includes_js (stripTags text0) (js ''\<newline>\<newline>'')
        \<and> \<not> includes_js (stripTags text0) (js ''**'')
        \<and> \<not> startsWith (trim (stripTags text0)) (js ''1.'')
        \<and> \<not> test flags_m bulletLine (stripTags text0)
        \<longrightarrow> formatResponse text0 = js ''<p>'' @ trim (stripTags text0) @ js ''</p>'')
   \<and> (60 \<notin> set text0 \<longrightarrow> stripTags text0 = text0)"
proof -
  have a: "formatResponse [] = []" by (simp add: formatResponse_def)
  have b: "formatResponse text0 = js ''<p>'' @ trim (stripTags text0) @ js ''</p>''"
    if "text0 \<noteq> []"
      and nb: "\<not> includes_js (stripTags text0) (js ''\<newline>\<newline>'')"
      and nbold: "\<not> includes_js (stripTags text0) (js ''**'')"
      and nnum: "\<not> startsWith (trim (stripTags text0)) (js ''1.'')"
      and nbul: "\<not> test flags_m bulletLine (stripTags text0)"
  proof -
    have cleaned: "normalizeBullets (convertBold (stripTags text0)) = stripTags text0"
      using nbold by (simp add: normalizeBullets_id convertBold_id)
    have sections: "split_rx flags_none sectionBreak (stripTags text0) = [stripTags text0]"
      using nb by (rule split_no_break)
    have para: "formatSection (stripTags text0) = [js ''<p>'' @ trim (stripTags text0) @ js ''</p>'']"
      using nnum nbul by (simp add: formatSection_def)
    show ?thesis
      using that(1) by (simp add: formatResponse_def Let_def cleaned sections para)
  qed
  from a b stripTags_id show ?thesis by blast
qed

theorem plain_text_is_one_paragraph_witness:
  "prose_in_tags \<noteq> []
   \<and> stripTags prose_in_tags = js ''  The sky is blue. ''
   \<and> \<not> includes_js (stripTags prose_in_tags) (js ''\<newline>\<newline>'')
   \<and> \<not> includes_js (stripTags prose_in_tags) (js ''**'')
   \<and> \<not> startsWith (trim (stripTags prose_in_tags)) (js ''1.'')
   \<and> \<not> test flags_m bulletLine (stripTags prose_in_tags)
   \<and> formatResponse prose_in_tags = js ''<p>The sky is blue.</p>''"
proof -
  have s: "stripTags prose_in_tags = js ''  The sky is blue. ''" by code_simp
  have h1: "prose_in_tags \<noteq> []" by code_simp
  have h2: "\<not> includes_js (js ''  The sky is blue. '') (js ''\<newline>\<newline>'')" by code_simp
  have h3: "\<not> includes_js (js ''  The sky is blue. '') (js ''**'')" by code_simp
  have h4: "\<not> startsWith (trim (js ''  The sky is blue. '')) (js ''1.'')" by code_simp
  have h5: "\<not> test flags_m bulletLine (js ''  The sky is blue. '')" by code_simp
  have t: "js ''<p>'' @ trim (js ''  The sky is blue. '') @ js ''</p>'' = js ''<p>The sky is blue.</p>''"
    by code_simp
  show ?thesis
    using plain_text_is_one_paragraph [of prose_in_tags] h1 h2 h3 h4 h5 t
    by (simp add: s)
qed


end
